theory Spec2Isabelle
  imports Complex_Main "HOL-Library.Log_Nat" "HOL-Library.Sublist"
begin

section \<open>Entities\<close>

text \<open>
  The entity package: users, jobs, queue jobs, job statuses and job types. Go strings are
  byte strings; the model reads them as \<^typ>\<open>string\<close> and takes them to hold valid UTF-8
  text, which is what the JSON encoder preserves. \<open>int64\<close> identifiers are integers: the
  code never does arithmetic on them. A \<open>time.Time\<close> is a number of nanoseconds counted
  from Go's zero time, so the zero value of the type is \<open>0\<close>.
\<close>

type_synonym JobStatus = string
type_synonym JobType = string
type_synonym time = nat

definition JobStatusCreated :: JobStatus where "JobStatusCreated = ''created''"
definition JobStatusProcessing :: JobStatus where "JobStatusProcessing = ''processing''"
definition JobStatusTranscribed :: JobStatus where "JobStatusTranscribed = ''transcribed''"
definition JobStatusSummarized :: JobStatus where "JobStatusSummarized = ''summarized''"
definition JobStatusCompleted :: JobStatus where "JobStatusCompleted = ''completed''"
definition JobStatusFailed :: JobStatus where "JobStatusFailed = ''failed''"
definition JobStatusQueued :: JobStatus where "JobStatusQueued = ''queued''"
definition JobStatusPending :: JobStatus where "JobStatusPending = ''pending''"

definition JobTypeTranscription :: JobType where
  "JobTypeTranscription = ''transcription''"
definition JobTypeTranscriptionWithTimestamps :: JobType where
  "JobTypeTranscriptionWithTimestamps = ''transcription_with_timestamps''"
definition JobTypeSummarization :: JobType where
  "JobTypeSummarization = ''summarization''"
definition JobTypeSummarizationWithBulletPoints :: JobType where
  "JobTypeSummarizationWithBulletPoints = ''summarization_with_bullets''"
definition JobTypeNotionSync :: JobType where
  "JobTypeNotionSync = ''notion_sync''"
definition JobTypeNotion :: JobType where
  "JobTypeNotion = ''notion''"
definition JobTypeNotification :: JobType where
  "JobTypeNotification = ''notification''"

lemmas JobStatus_defs =
  JobStatusCreated_def JobStatusProcessing_def JobStatusTranscribed_def
  JobStatusSummarized_def JobStatusCompleted_def JobStatusFailed_def
  JobStatusQueued_def JobStatusPending_def

lemmas JobType_defs =
  JobTypeTranscription_def JobTypeTranscriptionWithTimestamps_def
  JobTypeSummarization_def JobTypeSummarizationWithBulletPoints_def
  JobTypeNotionSync_def JobTypeNotion_def JobTypeNotification_def

record User =
  u_ID :: int
  u_TelegramID :: int
  u_Username :: string
  u_FirstName :: string
  u_LastName :: string
  u_NotionToken :: string
  u_NotionDatabaseID :: string
  u_CreatedAt :: time
  u_UpdatedAt :: time

record Job =
  j_ID :: int
  j_UserID :: int
  j_Type :: JobType
  j_Status :: JobStatus
  j_AudioFilePath :: string
  j_FileName :: string
  j_Duration :: rat
  j_Transcription :: string
  j_Summary :: string
  j_NotionPageID :: string
  j_NotionDatabaseID :: string
  j_CreatedAt :: time
  j_UpdatedAt :: time
  j_CompletedAt :: "time option"
  j_ErrorMessage :: string

text \<open>
  The payload of a queue job has Go type \<open>any\<close>. The dynamic types that occur are listed
  here; a Go map is an association list read with \<^const>\<open>map_of\<close>.
\<close>

datatype payload =
    PNil
  | PBool bool
  | PString string
  | PInt64 int
  | PFloat64 rat
  | PList "payload list"
  | PMapString "(string \<times> string) list"
  | PMap "(string \<times> payload) list"

record QueueJob =
  q_ID :: int
  q_JobID :: int
  q_UserID :: int
  q_JobType :: JobType
  q_CreatedAt :: time
  q_Payload :: payload

text \<open>
  Go errors: a message, or a message wrapping a cause (\<open>fmt.Errorf("...: %w", err)\<close>).
\<close>

datatype err = Err string | Wrap string err

section \<open>JSON encoding of queue jobs\<close>

text \<open>
  \<open>float64_of_int64\<close> is the float64 nearest to an integer (ties to even), the value
  the JSON decoder produces for an integer literal read into an \<open>interface{}\<close>.
\<close>

definition float64_of_int64 :: "int \<Rightarrow> rat" where
  "float64_of_int64 n =
     (let a = \<bar>n\<bar> in
      if a < 2 ^ 53 then of_int n
      else
        let e = nat (bitlen a - 53);
            q = a div 2 ^ e;
            r = a mod 2 ^ e;
            h = 2 ^ (e - 1);
            q' = (if h < r \<or> (r = h \<and> odd q) then q + 1 else q)
        in of_int (sgn n * q' * 2 ^ e))"

text \<open>
  \<open>json_payload p\<close> is the value obtained by \<open>json.Marshal\<close> of \<open>p\<close> followed by
  \<open>json.Unmarshal\<close> into an \<open>interface{}\<close>: numbers come back as float64, every object
  as \<open>map[string]interface{}\<close>, every array as \<open>[]interface{}\<close>.
\<close>

primrec json_payload :: "payload \<Rightarrow> payload" where
  "json_payload PNil = PNil"
| "json_payload (PBool b) = PBool b"
| "json_payload (PString s) = PString s"
| "json_payload (PInt64 n) = PFloat64 (float64_of_int64 n)"
| "json_payload (PFloat64 x) = PFloat64 x"
| "json_payload (PList ps) = PList (map json_payload ps)"
| "json_payload (PMapString kvs) = PMap (map (map_prod id PString) kvs)"
| "json_payload (PMap kvs) = PMap (map (map_prod id json_payload) kvs)"

text \<open>
  The typed fields of a queue job survive the round trip unchanged; only the payload is
  re-typed.
\<close>

definition json_QueueJob :: "QueueJob \<Rightarrow> QueueJob" where
  "json_QueueJob job = job\<lparr>q_Payload := json_payload (q_Payload job)\<rparr>"

section \<open>The state of the system\<close>

text \<open>
  A Redis list holds strings. \<open>Encoded job\<close> stands for a string that \<open>json.Unmarshal\<close>
  decodes into \<open>job\<close>; \<open>Undecodable s\<close> for a string it rejects.
\<close>

datatype redis_value = Encoded QueueJob | Undecodable string

text \<open>
  Calls that leave the process are recorded in the order they are made: the external
  collaborators and the look-ups in the users table.
\<close>

datatype call =
    CallProcessAudio string string
  | CallTranscribe string
  | CallSummarizeText string
  | CallCreatePage string string string
  | CallSendMessage int string
  | CallGetByTelegramID int

text \<open>
  \<open>jobs\<close> is the jobs table, keyed by id, each row held as the entity \<open>GetByID\<close> would
  scan from it; \<open>jobs_serial\<close> is the next value of the id sequence. \<open>redis\<close> maps a key
  to its list. \<open>db_faults\<close> and \<open>redis_faults\<close> say, for the statements and commands
  still to come, which of them the server rejects (an exhausted schedule rejects none):
  transport failures and rejections by the schema are both among them. \<open>clock\<close> is what
  \<open>time.Now()\<close> reads; it advances where the program waits, in \<open>time.Sleep\<close> and in a
  \<open>BLPop\<close> that times out.
\<close>

record world =
  jobs :: "int \<rightharpoonup> Job"
  jobs_serial :: int
  users :: "User list"
  redis :: "string \<Rightarrow> redis_value list"
  clock :: time
  db_faults :: "bool list"
  redis_faults :: "bool list"
  calls :: "call list"

definition db_error :: err where
  "db_error = Err ''database error''"

definition redis_error :: err where
  "redis_error = Err ''redis error''"

definition db_exec :: "world \<Rightarrow> bool \<times> world" where
  "db_exec w =
     (case db_faults w of
        [] \<Rightarrow> (False, w)
      | f # fs \<Rightarrow> (f, w\<lparr>db_faults := fs\<rparr>))"

definition redis_cmd :: "world \<Rightarrow> bool \<times> world" where
  "redis_cmd w =
     (case redis_faults w of
        [] \<Rightarrow> (False, w)
      | f # fs \<Rightarrow> (f, w\<lparr>redis_faults := fs\<rparr>))"

section \<open>Job repository\<close>

text \<open>
  \<open>Create\<close> stamps the entity, forces the status \<open>pending\<close> and inserts twelve columns;
  \<open>completed_at\<close> and \<open>error_message\<close> are inserted as the caller passed them. The entity
  is mutated before the statement runs, so the caller sees the stamps on failure too.
\<close>

definition Create :: "Job \<Rightarrow> world \<Rightarrow> (err option \<times> Job) \<times> world" where
  "Create job w =
     (let now = clock w;
          job1 = job\<lparr>j_CreatedAt := now, j_UpdatedAt := now, j_Status := JobStatusPending\<rparr>
      in case db_exec w of
           (True, w1) \<Rightarrow> ((Some (Wrap ''failed to create job'' db_error), job1), w1)
         | (False, w1) \<Rightarrow>
             let job2 = job1\<lparr>j_ID := jobs_serial w1\<rparr>;
                 row = job2\<lparr>j_Type := [], j_FileName := [], j_Duration := 0\<rparr>
             in ((None, job2),
                 w1\<lparr>jobs := (jobs w1)(jobs_serial w1 \<mapsto> row),
                    jobs_serial := jobs_serial w1 + 1\<rparr>))"

definition GetByID :: "int \<Rightarrow> world \<Rightarrow> (err + Job) \<times> world" where
  "GetByID ident w =
     (case db_exec w of
        (True, w1) \<Rightarrow> (Inl (Wrap ''failed to get job'' db_error), w1)
      | (False, w1) \<Rightarrow>
          (case jobs w1 ident of
             None \<Rightarrow> (Inl (Err ''job not found''), w1)
           | Some row \<Rightarrow> (Inr row, w1)))"

text \<open>An \<open>UPDATE ... WHERE id = $n\<close> that matches no row changes nothing and succeeds.\<close>

definition update_row :: "int \<Rightarrow> (Job \<Rightarrow> Job) \<Rightarrow> world \<Rightarrow> world" where
  "update_row ident f w =
     (case jobs w ident of
        None \<Rightarrow> w
      | Some row \<Rightarrow> w\<lparr>jobs := (jobs w)(ident \<mapsto> f row)\<rparr>)"

definition UpdateStatus :: "int \<Rightarrow> JobStatus \<Rightarrow> string \<Rightarrow> world \<Rightarrow> err option \<times> world" where
  "UpdateStatus ident status errorMessage w =
     (let now = clock w;
          completedAt =
            (if status = JobStatusCompleted \<or> status = JobStatusFailed then Some now else None)
      in case db_exec w of
           (True, w1) \<Rightarrow> (Some (Wrap ''failed to update job status'' db_error), w1)
         | (False, w1) \<Rightarrow>
             (None,
              update_row ident
                (\<lambda>row. row\<lparr>j_Status := status, j_UpdatedAt := now,
                           j_CompletedAt := completedAt, j_ErrorMessage := errorMessage\<rparr>)
                w1))"

definition SetTranscription :: "int \<Rightarrow> string \<Rightarrow> world \<Rightarrow> err option \<times> world" where
  "SetTranscription ident transcription w =
     (case db_exec w of
        (True, w1) \<Rightarrow> (Some (Wrap ''failed to set transcription'' db_error), w1)
      | (False, w1) \<Rightarrow>
          (None,
           update_row ident
             (\<lambda>row. row\<lparr>j_Transcription := transcription, j_UpdatedAt := clock w\<rparr>) w1))"

definition SetSummary :: "int \<Rightarrow> string \<Rightarrow> world \<Rightarrow> err option \<times> world" where
  "SetSummary ident summary w =
     (case db_exec w of
        (True, w1) \<Rightarrow> (Some (Wrap ''failed to set summary'' db_error), w1)
      | (False, w1) \<Rightarrow>
          (None,
           update_row ident
             (\<lambda>row. row\<lparr>j_Summary := summary, j_UpdatedAt := clock w\<rparr>) w1))"

definition SetNotionIDs :: "int \<Rightarrow> string \<Rightarrow> string \<Rightarrow> world \<Rightarrow> err option \<times> world" where
  "SetNotionIDs ident pageID databaseID w =
     (case db_exec w of
        (True, w1) \<Rightarrow> (Some (Wrap ''failed to set notion IDs'' db_error), w1)
      | (False, w1) \<Rightarrow>
          (None,
           update_row ident
             (\<lambda>row. row\<lparr>j_NotionPageID := pageID, j_NotionDatabaseID := databaseID,
                        j_UpdatedAt := clock w\<rparr>) w1))"

text \<open>Sequences of Job Store operations, as a caller of the repository can issue them.\<close>

datatype store_op =
    OpCreate Job
  | OpUpdateStatus int JobStatus string
  | OpSetTranscription int string
  | OpSetSummary int string
  | OpSetNotionIDs int string string

fun apply_store_op :: "store_op \<Rightarrow> world \<Rightarrow> world" where
  "apply_store_op (OpCreate job) w = snd (Create job w)"
| "apply_store_op (OpUpdateStatus ident status msg) w = snd (UpdateStatus ident status msg w)"
| "apply_store_op (OpSetTranscription ident text) w = snd (SetTranscription ident text w)"
| "apply_store_op (OpSetSummary ident text) w = snd (SetSummary ident text w)"
| "apply_store_op (OpSetNotionIDs ident pageID databaseID) w =
     snd (SetNotionIDs ident pageID databaseID w)"

fun run_store_ops :: "store_op list \<Rightarrow> world \<Rightarrow> world" where
  "run_store_ops [] w = w"
| "run_store_ops (op # ops) w = run_store_ops ops (apply_store_op op w)"

definition is_terminal :: "JobStatus \<Rightarrow> bool" where
  "is_terminal status \<longleftrightarrow> status = JobStatusCompleted \<or> status = JobStatusFailed"

definition completed_at_inv :: "Job \<Rightarrow> bool" where
  "completed_at_inv row \<longleftrightarrow> (j_CompletedAt row \<noteq> None) = is_terminal (j_Status row)"

definition store_inv :: "world \<Rightarrow> bool" where
  "store_inv w \<longleftrightarrow> (\<forall>row \<in> ran (jobs w). completed_at_inv row)"

fun creates_unfinished :: "store_op \<Rightarrow> bool" where
  "creates_unfinished (OpCreate job) = (j_CompletedAt job = None)"
| "creates_unfinished _ = True"

section \<open>User repository\<close>

text \<open>
  \<open>GetByTelegramID\<close> selects and scans seven columns; the two Notion fields of the
  returned entity keep Go's zero value.
\<close>

definition GetByTelegramID :: "int \<Rightarrow> world \<Rightarrow> (err + User) \<times> world" where
  "GetByTelegramID telegramID w =
     (let w0 = w\<lparr>calls := calls w @ [CallGetByTelegramID telegramID]\<rparr>
      in case db_exec w0 of
           (True, w1) \<Rightarrow> (Inl (Wrap ''failed to get user'' db_error), w1)
         | (False, w1) \<Rightarrow>
             (case find (\<lambda>u. u_TelegramID u = telegramID) (users w1) of
                None \<Rightarrow> (Inl (Err ''user not found''), w1)
              | Some row \<Rightarrow>
                  (Inr (row\<lparr>u_NotionToken := [], u_NotionDatabaseID := []\<rparr>), w1)))"

section \<open>Queue repository\<close>

definition redis_Nil :: err where
  "redis_Nil = Err ''redis: nil''"

definition second :: time where
  "second = 1000000000"

definition RPush :: "string \<Rightarrow> redis_value \<Rightarrow> world \<Rightarrow> err option \<times> world" where
  "RPush key v w =
     (case redis_cmd w of
        (True, w1) \<Rightarrow> (Some redis_error, w1)
      | (False, w1) \<Rightarrow> (None, w1\<lparr>redis := (redis w1)(key := redis w1 key @ [v])\<rparr>))"

text \<open>
  \<open>BLPop\<close> with a timeout: on a list that stays empty it waits for the timeout and
  answers \<open>redis.Nil\<close>; otherwise it removes the head and answers the key and the value.
  Nothing but this program writes to the lists, so a list that is empty when the command
  arrives stays empty while it waits.
\<close>

definition BLPop :: "time \<Rightarrow> string \<Rightarrow> world \<Rightarrow> (err + redis_value list) \<times> world" where
  "BLPop timeout key w =
     (case redis_cmd w of
        (True, w1) \<Rightarrow> (Inl redis_error, w1)
      | (False, w1) \<Rightarrow>
          (case redis w1 key of
             [] \<Rightarrow> (Inl redis_Nil, w1\<lparr>clock := clock w1 + timeout\<rparr>)
           | v # vs \<Rightarrow> (Inr [Undecodable key, v], w1\<lparr>redis := (redis w1)(key := vs)\<rparr>)))"

text \<open>
  Every value of \<^typ>\<open>payload\<close> can be encoded, so \<open>json.Marshal\<close> of a queue job
  succeeds; its result is a string that decodes to the re-typed job.
\<close>

definition json_Marshal :: "QueueJob \<Rightarrow> err + redis_value" where
  "json_Marshal job = Inr (Encoded (json_QueueJob job))"

definition json_Unmarshal :: "redis_value \<Rightarrow> err + QueueJob" where
  "json_Unmarshal v =
     (case v of
        Encoded job \<Rightarrow> Inr job
      | Undecodable s \<Rightarrow> Inl (Err ''json: cannot unmarshal''))"

text \<open>
  \<open>Push\<close> stamps the job through its pointer; its only caller passes the address of a
  local copy, so the stamp is visible in the encoded job alone.
\<close>

definition Push :: "string \<Rightarrow> QueueJob \<Rightarrow> world \<Rightarrow> err option \<times> world" where
  "Push queueName job w =
     (let job1 = job\<lparr>q_CreatedAt := clock w\<rparr>
      in case json_Marshal job1 of
           Inl e \<Rightarrow> (Some (Wrap ''failed to marshal job'' e), w)
         | Inr jobJSON \<Rightarrow>
             (case RPush queueName jobJSON w of
                (Some e, w1) \<Rightarrow> (Some (Wrap ''failed to push job to queue'' e), w1)
              | (None, w1) \<Rightarrow> (None, w1)))"

definition Pop :: "string \<Rightarrow> world \<Rightarrow> (err + QueueJob option) \<times> world" where
  "Pop queueName w =
     (case BLPop second queueName w of
        (Inl e, w1) \<Rightarrow>
          (if e = redis_Nil then (Inr None, w1)
           else (Inl (Wrap ''failed to pop job from queue'' e), w1))
      | (Inr result, w1) \<Rightarrow>
          (if length result < 2 then (Inr None, w1)
           else
             (case json_Unmarshal (result ! 1) of
                Inl e \<Rightarrow> (Inl (Wrap ''failed to unmarshal job'' e), w1)
              | Inr job \<Rightarrow> (Inr (Some job), w1))))"

fun push_all :: "string \<Rightarrow> QueueJob list \<Rightarrow> world \<Rightarrow> world" where
  "push_all queueName [] w = w"
| "push_all queueName (job # rest) w = push_all queueName rest (snd (Push queueName job w))"

fun pop_n :: "string \<Rightarrow> nat \<Rightarrow> world \<Rightarrow> (err + QueueJob option) list \<times> world" where
  "pop_n queueName 0 w = ([], w)"
| "pop_n queueName (Suc n) w =
     (case Pop queueName w of
        (r, w1) \<Rightarrow> (case pop_n queueName n w1 of (rs, w2) \<Rightarrow> (r # rs, w2)))"

section \<open>Queue service\<close>

definition DefaultQueueName :: string where
  "DefaultQueueName = ''default''"

definition PushJob :: "QueueJob \<Rightarrow> world \<Rightarrow> err option \<times> world" where
  "PushJob job w =
     (let queueName = q_JobType job
      in case Push queueName job w of
           (Some e, w1) \<Rightarrow> (Some (Wrap ''failed to push job to queue'' e), w1)
         | (None, w1) \<Rightarrow>
             (case UpdateStatus (q_JobID job) JobStatusQueued [] w1 of
                (Some e, w2) \<Rightarrow> (Some (Wrap ''failed to update job status'' e), w2)
              | (None, w2) \<Rightarrow> (None, w2)))"

text \<open>\<open>PopJob\<close> returns a pointer and an error; both can be non-nil at once.\<close>

definition PopJob :: "string \<Rightarrow> world \<Rightarrow> (QueueJob option \<times> err option) \<times> world" where
  "PopJob queueName w =
     (case Pop queueName w of
        (Inl e, w1) \<Rightarrow> ((None, Some (Wrap ''failed to pop job from queue'' e)), w1)
      | (Inr None, w1) \<Rightarrow> ((None, None), w1)
      | (Inr (Some job), w1) \<Rightarrow>
          (case UpdateStatus (q_JobID job) JobStatusProcessing [] w1 of
             (Some e, w2) \<Rightarrow> ((Some job, Some (Wrap ''failed to update job status'' e)), w2)
           | (None, w2) \<Rightarrow> ((Some job, None), w2)))"

definition transcription_QueueJob :: "int \<Rightarrow> int \<Rightarrow> string \<Rightarrow> time \<Rightarrow> QueueJob" where
  "transcription_QueueJob jobID userID audioFilePath now =
     \<lparr>q_ID = 0, q_JobID = jobID, q_UserID = userID, q_JobType = JobTypeTranscription,
      q_CreatedAt = now, q_Payload = PString audioFilePath\<rparr>"

definition EnqueueTranscriptionJob :: "int \<Rightarrow> int \<Rightarrow> string \<Rightarrow> world \<Rightarrow> err option \<times> world" where
  "EnqueueTranscriptionJob jobID userID audioFilePath w =
     PushJob (transcription_QueueJob jobID userID audioFilePath (clock w)) w"

definition EnqueueSummarizationJob :: "int \<Rightarrow> int \<Rightarrow> string \<Rightarrow> world \<Rightarrow> err option \<times> world" where
  "EnqueueSummarizationJob jobID userID transcription w =
     PushJob
       \<lparr>q_ID = 0, q_JobID = jobID, q_UserID = userID, q_JobType = JobTypeSummarization,
        q_CreatedAt = clock w, q_Payload = PString transcription\<rparr> w"

definition EnqueueNotionSyncJob ::
  "int \<Rightarrow> int \<Rightarrow> string \<Rightarrow> string \<Rightarrow> world \<Rightarrow> err option \<times> world" where
  "EnqueueNotionSyncJob jobID userID title content w =
     PushJob
       \<lparr>q_ID = 0, q_JobID = jobID, q_UserID = userID, q_JobType = JobTypeNotionSync,
        q_CreatedAt = clock w,
        q_Payload = PMapString [(''title'', title), (''content'', content)]\<rparr> w"

section \<open>Worker\<close>

text \<open>
  A handler returns nil or an error, or panics; a panic is not recovered anywhere and
  ends the process.
\<close>

datatype outcome = Done | Failed err | Panic string

type_synonym JobHandler = "QueueJob \<Rightarrow> world \<Rightarrow> outcome \<times> world"

definition sleep :: "time \<Rightarrow> world \<Rightarrow> world" where
  "sleep d w = w\<lparr>clock := clock w + d\<rparr>"

text \<open>\<open>processJob\<close> returns nothing; the option is the panic passing through it.\<close>

definition processJob ::
  "(JobType \<rightharpoonup> JobHandler) \<Rightarrow> QueueJob \<Rightarrow> world \<Rightarrow> string option \<times> world" where
  "processJob handlers job w =
     (case handlers (q_JobType job) of
        None \<Rightarrow> (None, w)
      | Some handler \<Rightarrow>
          (case handler job w of
             (Failed e, w1) \<Rightarrow> (None, w1)
           | (Panic m, w1) \<Rightarrow> (Some m, w1)
           | (Done, w1) \<Rightarrow> (None, w1)))"

text \<open>The \<open>default\<close> branch of the select in \<open>Start\<close>: one pass of the loop body.\<close>

definition worker_iteration ::
  "(JobType \<rightharpoonup> JobHandler) \<Rightarrow> world \<Rightarrow> string option \<times> world" where
  "worker_iteration handlers w =
     (case PopJob DefaultQueueName w of
        ((job, Some e), w1) \<Rightarrow> (None, sleep second w1)
      | ((None, None), w1) \<Rightarrow> (None, sleep second w1)
      | ((Some job, None), w1) \<Rightarrow> processJob handlers job w1)"

text \<open>
  The loop of \<open>Start\<close>. The list says, pass by pass, what the select finds ready; the loop
  is followed for as many passes as the list is long, and \<open>Running\<close> means that it has
  not returned by then.
\<close>

datatype signal = NoSignal | CtxDone | ShutdownClosed

datatype worker_state = Running | StoppedByContext | StoppedByShutdown | Crashed string

fun Worker_Start ::
  "(JobType \<rightharpoonup> JobHandler) \<Rightarrow> signal list \<Rightarrow> world \<Rightarrow> worker_state \<times> world" where
  "Worker_Start handlers [] w = (Running, w)"
| "Worker_Start handlers (CtxDone # sigs) w = (StoppedByContext, w)"
| "Worker_Start handlers (ShutdownClosed # sigs) w = (StoppedByShutdown, w)"
| "Worker_Start handlers (NoSignal # sigs) w =
     (case worker_iteration handlers w of
        (Some m, w1) \<Rightarrow> (Crashed m, w1)
      | (None, w1) \<Rightarrow> Worker_Start handlers sigs w1)"

section \<open>Collaborators\<close>

text \<open>
  The services the handlers call, as functions of their arguments. \<open>SendProgressUpdate\<close>
  belongs to the Telegram use case and is not among the sources: it is taken as a
  parameter that reads the state and returns a chat id and a message, or an error.
  \<open>FormatTime\<close> is \<open>Format("02.01.2006 15:04")\<close> in the local time zone.
\<close>

record env =
  env_ProcessAudio :: "string \<Rightarrow> string \<Rightarrow> err + string"
  env_Transcribe :: "string \<Rightarrow> err + string"
  env_SummarizeText :: "string \<Rightarrow> err + string"
  env_CreatePage :: "string \<Rightarrow> string \<Rightarrow> string \<Rightarrow> err + string"
  env_SendProgressUpdate :: "world \<Rightarrow> int \<Rightarrow> JobStatus \<Rightarrow> err + (int \<times> string)"
  env_FormatTime :: "time \<Rightarrow> string"

definition record_call :: "call \<Rightarrow> world \<Rightarrow> world" where
  "record_call c w = w\<lparr>calls := calls w @ [c]\<rparr>"

text \<open>
  The pair of statements \<open>SendProgressUpdate\<close>, then \<open>SendMessage\<close> when it did not fail.
\<close>

definition progress_update :: "env \<Rightarrow> int \<Rightarrow> JobStatus \<Rightarrow> world \<Rightarrow> world" where
  "progress_update E jobID status w =
     (case env_SendProgressUpdate E w jobID status of
        Inl e \<Rightarrow> w
      | Inr (telegramID, message) \<Rightarrow> record_call (CallSendMessage telegramID message) w)"

text \<open>\<open>filepath.Base\<close> with the separator \<open>/\<close>.\<close>

definition Base :: "string \<Rightarrow> string" where
  "Base path =
     (if path = [] then ''.''
      else
        let stripped = rev (dropWhile (\<lambda>c. c = CHR ''/'') (rev path));
            last_elem = rev (takeWhile (\<lambda>c. c \<noteq> CHR ''/'') (rev stripped))
        in if last_elem = [] then ''/'' else last_elem)"

section \<open>Stage handlers\<close>

text \<open>The struct literal of the summarization job: \<open>ID\<close>, \<open>UserID\<close> and \<open>CreatedAt\<close> are left out.\<close>

definition summarizationJob :: "QueueJob \<Rightarrow> string \<Rightarrow> QueueJob" where
  "summarizationJob job transcription =
     (let userID =
            (case q_Payload job of
               PMap payloadMap \<Rightarrow>
                 (case map_of payloadMap ''user_id'' of
                    Some (PInt64 n) \<Rightarrow> n
                  | _ \<Rightarrow> 0)
             | _ \<Rightarrow> 0)
      in \<lparr>q_ID = 0, q_JobID = q_JobID job, q_UserID = 0, q_JobType = JobTypeSummarization,
          q_CreatedAt = 0,
          q_Payload = PMap [(''transcription'', PString transcription),
                            (''user_id'', PInt64 userID)]\<rparr>)"

definition ProcessTranscription :: "env \<Rightarrow> QueueJob \<Rightarrow> world \<Rightarrow> outcome \<times> world" where
  "ProcessTranscription E job w =
     (case q_Payload job of
        PMap payload \<Rightarrow>
          (case map_of payload ''audio_path'' of
             Some (PString audioPath) \<Rightarrow>
               (let w1 = record_call (CallProcessAudio audioPath (Base audioPath)) w
                in case env_ProcessAudio E audioPath (Base audioPath) of
                     Inl e \<Rightarrow> (Failed (Wrap ''failed to process audio for transcription'' e), w1)
                   | Inr processedAudioPath \<Rightarrow>
                       (let w2 = progress_update E (q_JobID job) JobStatusProcessing w1;
                            w3 = record_call (CallTranscribe processedAudioPath) w2
                        in case env_Transcribe E processedAudioPath of
                             Inl e \<Rightarrow> (Failed (Wrap ''failed to transcribe audio'' e), w3)
                           | Inr transcription \<Rightarrow>
                               (let w4 = progress_update E (q_JobID job) JobStatusTranscribed w3
                                in case SetTranscription (q_JobID job) transcription w4 of
                                     (Some e, w5) \<Rightarrow>
                                       (Failed (Wrap ''failed to update job transcription'' e), w5)
                                   | (None, w5) \<Rightarrow>
                                       (case PushJob (summarizationJob job transcription) w5 of
                                          (Some e, w6) \<Rightarrow>
                                            (Failed
                                               (Wrap ''failed to push summarization job to queue'' e),
                                             w6)
                                        | (None, w6) \<Rightarrow>
                                            (case UpdateStatus (q_JobID job) JobStatusTranscribed
                                                    [] w6 of
                                               (Some e, w7) \<Rightarrow>
                                                 (Failed (Wrap ''failed to update job status'' e),
                                                  w7)
                                             | (None, w7) \<Rightarrow> (Done, w7))))))
           | _ \<Rightarrow> (Failed (Err ''audio_path not found in job payload or has invalid type''), w))
      | _ \<Rightarrow> (Failed (Err ''invalid payload type in job''), w))"

definition ProcessTranscriptionWithTimestamps ::
  "env \<Rightarrow> QueueJob \<Rightarrow> world \<Rightarrow> outcome \<times> world" where
  "ProcessTranscriptionWithTimestamps E job w =
     (case q_Payload job of
        PMap payload \<Rightarrow>
          (case map_of payload ''audio_path'' of
             Some (PString audioPath) \<Rightarrow>
               (let w1 = record_call (CallProcessAudio audioPath (Base audioPath)) w
                in case env_ProcessAudio E audioPath (Base audioPath) of
                     Inl e \<Rightarrow>
                       (Failed
                          (Wrap ''failed to process audio for transcription with timestamps'' e),
                        w1)
                   | Inr processedAudioPath \<Rightarrow>
                       (let w2 = record_call (CallTranscribe processedAudioPath) w1
                        in case env_Transcribe E processedAudioPath of
                             Inl e \<Rightarrow>
                               (Failed (Wrap ''failed to transcribe audio with timestamps'' e), w2)
                           | Inr transcription \<Rightarrow>
                               (case SetTranscription (q_JobID job) transcription w2 of
                                  (Some e, w3) \<Rightarrow>
                                    (Failed
                                       (Wrap
                                          ''failed to update job transcription with timestamps'' e),
                                     w3)
                                | (None, w3) \<Rightarrow>
                                    (case UpdateStatus (q_JobID job) JobStatusTranscribed [] w3 of
                                       (Some e, w4) \<Rightarrow>
                                         (Failed (Wrap ''failed to update job status'' e), w4)
                                     | (None, w4) \<Rightarrow> (Done, w4)))))
           | _ \<Rightarrow> (Failed (Err ''audio_path not found in job payload or has invalid type''), w))
      | _ \<Rightarrow> (Failed (Err ''invalid payload type in job''), w))"

definition notionJob :: "QueueJob \<Rightarrow> string \<Rightarrow> string \<Rightarrow> time \<Rightarrow> QueueJob" where
  "notionJob job transcription summary now =
     \<lparr>q_ID = 0, q_JobID = q_JobID job, q_UserID = q_UserID job, q_JobType = JobTypeNotion,
      q_CreatedAt = now,
      q_Payload = PMap [(''transcription'', PString transcription),
                        (''summary'', PString summary)]\<rparr>"

text \<open>The summarization use case, as in \<open>internal/usecase/summarization_processing.go\<close>.\<close>

definition ProcessSummarization :: "env \<Rightarrow> QueueJob \<Rightarrow> world \<Rightarrow> outcome \<times> world" where
  "ProcessSummarization E job w =
     (case q_Payload job of
        PMap payload \<Rightarrow>
          (case map_of payload ''transcription'' of
             Some (PString transcription) \<Rightarrow>
               (let w1 = record_call (CallSummarizeText transcription) w
                in case env_SummarizeText E transcription of
                     Inl e \<Rightarrow> (Failed (Wrap ''failed to summarize text'' e), w1)
                   | Inr summary \<Rightarrow>
                       (case SetSummary (q_JobID job) summary w1 of
                          (Some e, w2) \<Rightarrow> (Failed (Wrap ''failed to update job summary'' e), w2)
                        | (None, w2) \<Rightarrow>
                            (case PushJob (notionJob job transcription summary (clock w2)) w2 of
                               (Some e, w3) \<Rightarrow>
                                 (Failed (Wrap ''failed to push notion job to queue'' e), w3)
                             | (None, w3) \<Rightarrow>
                                 (case UpdateStatus (q_JobID job) JobStatusSummarized [] w3 of
                                    (Some e, w4) \<Rightarrow>
                                      (Failed (Wrap ''failed to update job status'' e), w4)
                                  | (None, w4) \<Rightarrow> (Done, w4)))))
           | _ \<Rightarrow>
               (Failed (Err ''transcription not found in job payload or has invalid type''), w))
      | _ \<Rightarrow> (Failed (Err ''invalid payload type in job''), w))"

definition ProcessSummarizationWithBulletPoints ::
  "env \<Rightarrow> QueueJob \<Rightarrow> world \<Rightarrow> outcome \<times> world" where
  "ProcessSummarizationWithBulletPoints E job w =
     (case q_Payload job of
        PMap payload \<Rightarrow>
          (case map_of payload ''transcription'' of
             Some (PString transcription) \<Rightarrow>
               (let w1 = record_call (CallSummarizeText transcription) w
                in case env_SummarizeText E transcription of
                     Inl e \<Rightarrow> (Failed (Wrap ''failed to summarize text with bullet points'' e), w1)
                   | Inr summary \<Rightarrow>
                       (case SetSummary (q_JobID job) summary w1 of
                          (Some e, w2) \<Rightarrow>
                            (Failed
                               (Wrap ''failed to update job summary with bullet points'' e), w2)
                        | (None, w2) \<Rightarrow>
                            (case UpdateStatus (q_JobID job) JobStatusSummarized [] w2 of
                               (Some e, w3) \<Rightarrow>
                                 (Failed (Wrap ''failed to update job status'' e), w3)
                             | (None, w3) \<Rightarrow> (Done, w3))))
           | _ \<Rightarrow>
               (Failed (Err ''transcription not found in job payload or has invalid type''), w))
      | _ \<Rightarrow> (Failed (Err ''invalid payload type in job''), w))"

text \<open>The fixed parts of the Notion page, as the UTF-8 bytes of the Go string literals.\<close>

definition page_title_prefix :: string where
  "page_title_prefix =
     [CHR 0xD0, CHR 0xA2, CHR 0xD1, CHR 0x80, CHR 0xD0, CHR 0xB0, CHR 0xD0, CHR 0xBD,
      CHR 0xD1, CHR 0x81, CHR 0xD0, CHR 0xBA, CHR 0xD1, CHR 0x80, CHR 0xD0, CHR 0xB8,
      CHR 0xD0, CHR 0xBF, CHR 0xD1, CHR 0x86, CHR 0xD0, CHR 0xB8, CHR 0xD1, CHR 0x8F,
      CHR 0x20, CHR 0xD0, CHR 0xBE, CHR 0xD1, CHR 0x82, CHR 0x20]"

definition page_summary_heading :: string where
  "page_summary_heading =
     [CHR 0x23, CHR 0x23, CHR 0x20, CHR 0xD0, CHR 0xA1, CHR 0xD1, CHR 0x83, CHR 0xD0,
      CHR 0xBC, CHR 0xD0, CHR 0xBC, CHR 0xD0, CHR 0xB0, CHR 0xD1, CHR 0x80, CHR 0xD0,
      CHR 0xB8, CHR 0xD0, CHR 0xB7, CHR 0xD0, CHR 0xB0, CHR 0xD1, CHR 0x86, CHR 0xD0,
      CHR 0xB8, CHR 0xD1, CHR 0x8F, CHR 0x0A, CHR 0x0A]"

definition page_transcription_heading :: string where
  "page_transcription_heading =
     [CHR 0x0A, CHR 0x0A, CHR 0x23, CHR 0x23, CHR 0x20, CHR 0xD0, CHR 0x9F, CHR 0xD0,
      CHR 0xBE, CHR 0xD0, CHR 0xBB, CHR 0xD0, CHR 0xBD, CHR 0xD0, CHR 0xB0, CHR 0xD1,
      CHR 0x8F, CHR 0x20, CHR 0xD1, CHR 0x82, CHR 0xD1, CHR 0x80, CHR 0xD0, CHR 0xB0,
      CHR 0xD0, CHR 0xBD, CHR 0xD1, CHR 0x81, CHR 0xD0, CHR 0xBA, CHR 0xD1, CHR 0x80,
      CHR 0xD0, CHR 0xB8, CHR 0xD0, CHR 0xBF, CHR 0xD1, CHR 0x86, CHR 0xD0, CHR 0xB8,
      CHR 0xD1, CHR 0x8F, CHR 0x0A, CHR 0x0A]"

text \<open>
  The first type assertion of \<open>ProcessNotionIntegration\<close> has no \<open>ok\<close> result: on a
  payload that is not a \<open>map[string]interface{}\<close> it panics.
\<close>

definition ProcessNotionIntegration :: "env \<Rightarrow> QueueJob \<Rightarrow> world \<Rightarrow> outcome \<times> world" where
  "ProcessNotionIntegration E job w =
     (case q_Payload job of
        PMap payload \<Rightarrow>
          (case map_of payload ''transcription'' of
             Some (PString transcription) \<Rightarrow>
               (case map_of payload ''summary'' of
                  Some (PString summary) \<Rightarrow>
                    (case GetByTelegramID (q_UserID job) w of
                       (Inl e, w1) \<Rightarrow> (Failed (Wrap ''failed to get user'' e), w1)
                     | (Inr user, w1) \<Rightarrow>
                         (if u_NotionToken user = [] \<or> u_NotionDatabaseID user = [] then
                            (case UpdateStatus (q_JobID job) JobStatusCompleted [] w1 of
                               (Some e, w2) \<Rightarrow>
                                 (Failed (Wrap ''failed to update job status'' e), w2)
                             | (None, w2) \<Rightarrow> (Done, w2))
                          else
                            (let pageTitle = page_title_prefix @ env_FormatTime E (clock w1);
                                 content = page_summary_heading @ summary
                                             @ page_transcription_heading @ transcription;
                                 w2 = record_call
                                        (CallCreatePage (u_NotionDatabaseID user) pageTitle content)
                                        w1
                             in case env_CreatePage E (u_NotionDatabaseID user) pageTitle content of
                                  Inl e \<Rightarrow> (Failed (Wrap ''failed to create Notion page'' e), w2)
                                | Inr pageID \<Rightarrow>
                                    (case SetNotionIDs (q_JobID job) pageID
                                            (u_NotionDatabaseID user) w2 of
                                       (Some e, w3) \<Rightarrow>
                                         (Failed (Wrap ''failed to update job Notion IDs'' e), w3)
                                     | (None, w3) \<Rightarrow>
                                         (case UpdateStatus (q_JobID job) JobStatusCompleted
                                                 [] w3 of
                                            (Some e, w4) \<Rightarrow>
                                              (Failed (Wrap ''failed to update job status'' e),
                                               w4)
                                          | (None, w4) \<Rightarrow> (Done, w4))))))
                | _ \<Rightarrow>
                    (Failed (Err ''summary not found in job payload or has invalid type''), w))
           | _ \<Rightarrow>
               (Failed (Err ''transcription not found in job payload or has invalid type''), w))
      | _ \<Rightarrow> (Panic ''interface conversion: interface {} is not map[string]interface {}'', w))"

text \<open>
  \<open>SendJobCompletionNotification\<close> receives the job id printed in decimal and parses it
  back, which cannot fail on a printed \<open>int64\<close>; the model passes the number. The message
  it builds is discarded by the notification handler and is left out.
\<close>

definition SendJobCompletionNotification :: "int \<Rightarrow> world \<Rightarrow> (err + int) \<times> world" where
  "SendJobCompletionNotification jobID w =
     (case GetByID jobID w of
        (Inl e, w1) \<Rightarrow> (Inl (Wrap ''failed to get job'' e), w1)
      | (Inr job, w1) \<Rightarrow>
          (case GetByTelegramID (j_UserID job) w1 of
             (Inl e, w2) \<Rightarrow> (Inl (Wrap ''failed to get user'' e), w2)
           | (Inr user, w2) \<Rightarrow> (Inr (u_TelegramID user), w2)))"

definition notification_handler :: "QueueJob \<Rightarrow> world \<Rightarrow> outcome \<times> world" where
  "notification_handler job w =
     (case SendJobCompletionNotification (q_JobID job) w of
        (Inl e, w1) \<Rightarrow> (Failed e, w1)
      | (Inr telegramID, w1) \<Rightarrow> (Done, w1))"

text \<open>\<open>RegisterHandlers\<close>: the handler table the worker runs with.\<close>

definition RegisterHandlers :: "env \<Rightarrow> (JobType \<rightharpoonup> JobHandler)" where
  "RegisterHandlers E =
     (Map.empty
        (JobTypeTranscription \<mapsto> ProcessTranscription E,
         JobTypeTranscriptionWithTimestamps \<mapsto> ProcessTranscriptionWithTimestamps E,
         JobTypeSummarization \<mapsto> ProcessSummarization E,
         JobTypeSummarizationWithBulletPoints \<mapsto> ProcessSummarizationWithBulletPoints E,
         JobTypeNotion \<mapsto> ProcessNotionIntegration E,
         JobTypeNotification \<mapsto> notification_handler))"

section \<open>Concrete states and inputs\<close>

text \<open>
  The scenario of the specification: user 42 submits \<open>a.ogg\<close>; transcription gives
  \<open>hello world\<close>, summarization gives \<open>greeting\<close>. The user has no Notion credentials.
\<close>

definition user42 :: User where
  "user42 =
     \<lparr>u_ID = 42, u_TelegramID = 42, u_Username = ''alice'', u_FirstName = [], u_LastName = [],
      u_NotionToken = [], u_NotionDatabaseID = [], u_CreatedAt = 0, u_UpdatedAt = 0\<rparr>"

definition world0 :: world where
  "world0 =
     \<lparr>jobs = Map.empty, jobs_serial = 1, users = [user42], redis = (\<lambda>key. []),
      clock = 1000, db_faults = [], redis_faults = [], calls = []\<rparr>"

definition job_a_ogg :: Job where
  "job_a_ogg =
     \<lparr>j_ID = 0, j_UserID = 42, j_Type = JobTypeTranscription, j_Status = JobStatusCreated,
      j_AudioFilePath = ''a.ogg'', j_FileName = ''a.ogg'', j_Duration = 3,
      j_Transcription = [], j_Summary = [], j_NotionPageID = [], j_NotionDatabaseID = [],
      j_CreatedAt = 1000, j_UpdatedAt = 1000, j_CompletedAt = None, j_ErrorMessage = []\<rparr>"

text \<open>The state after the job has been created: it is row 1 of the jobs table.\<close>

definition world1 :: world where
  "world1 = snd (Create job_a_ogg world0)"

definition env0 :: env where
  "env0 =
     \<lparr>env_ProcessAudio = (\<lambda>path name. Inr ''a.wav''),
      env_Transcribe = (\<lambda>path. Inr ''hello world''),
      env_SummarizeText = (\<lambda>text. Inr ''greeting''),
      env_CreatePage = (\<lambda>databaseID title content. Inr ''page-123''),
      env_SendProgressUpdate = (\<lambda>w jobID status. Inl (Err ''chat not found'')),
      env_FormatTime = (\<lambda>t. ''01.01.2024 00:00'')\<rparr>"

text \<open>A job whose \<open>completed_at\<close> is already set when it is handed to \<open>Create\<close>.\<close>

definition job_finished :: Job where
  "job_finished = job_a_ogg\<lparr>j_CompletedAt := Some 900\<rparr>"

definition store_ops_example :: "store_op list" where
  "store_ops_example =
     [OpCreate job_a_ogg,
      OpUpdateStatus 1 JobStatusQueued [],
      OpSetTranscription 1 ''hello world'',
      OpUpdateStatus 1 JobStatusTranscribed [],
      OpSetSummary 1 ''greeting'',
      OpSetNotionIDs 1 ''page-123'' ''db-1'',
      OpUpdateStatus 1 JobStatusCompleted []]"

text \<open>The queue job of \<open>EnqueueTranscriptionJob\<close> for the scenario, as it is decoded.\<close>

definition tjob :: QueueJob where
  "tjob = json_QueueJob (transcription_QueueJob 1 42 ''a.ogg'' 1000)"

text \<open>A transcription job whose payload is the map the transcription handler reads.\<close>

definition tjob_map :: QueueJob where
  "tjob_map =
     \<lparr>q_ID = 0, q_JobID = 1, q_UserID = 42, q_JobType = JobTypeTranscription,
      q_CreatedAt = 1000,
      q_Payload = PMap [(''audio_path'', PString ''a.ogg''), (''user_id'', PInt64 42)]\<rparr>"

definition njob :: QueueJob where
  "njob =
     \<lparr>q_ID = 0, q_JobID = 1, q_UserID = 42, q_JobType = JobTypeNotion, q_CreatedAt = 1000,
      q_Payload = PMap [(''transcription'', PString ''hello world''),
                        (''summary'', PString ''greeting'')]\<rparr>"

text \<open>A queue job whose type tag is the name of the default queue.\<close>

definition default_job :: QueueJob where
  "default_job =
     \<lparr>q_ID = 0, q_JobID = 1, q_UserID = 42, q_JobType = ''default'', q_CreatedAt = 1000,
      q_Payload = PString ''a.ogg''\<rparr>"

text \<open>States in which the default queue holds one item.\<close>

definition world_default :: "QueueJob \<Rightarrow> world" where
  "world_default job = world1\<lparr>redis := (redis world1)(DefaultQueueName := [Encoded job])\<rparr>"

section \<open>Effects of the store operations\<close>

lemma db_exec_frame [simp]:
  "jobs (snd (db_exec w)) = jobs w"
  "jobs_serial (snd (db_exec w)) = jobs_serial w"
  "users (snd (db_exec w)) = users w"
  "redis (snd (db_exec w)) = redis w"
  "clock (snd (db_exec w)) = clock w"
  "redis_faults (snd (db_exec w)) = redis_faults w"
  "calls (snd (db_exec w)) = calls w"
  by (simp_all add: db_exec_def split: list.split)

lemma redis_cmd_frame [simp]:
  "jobs (snd (redis_cmd w)) = jobs w"
  "jobs_serial (snd (redis_cmd w)) = jobs_serial w"
  "users (snd (redis_cmd w)) = users w"
  "redis (snd (redis_cmd w)) = redis w"
  "clock (snd (redis_cmd w)) = clock w"
  "db_faults (snd (redis_cmd w)) = db_faults w"
  "calls (snd (redis_cmd w)) = calls w"
  by (simp_all add: redis_cmd_def split: list.split)

lemma update_row_frame [simp]:
  "jobs_serial (update_row i f w) = jobs_serial w"
  "users (update_row i f w) = users w"
  "redis (update_row i f w) = redis w"
  "clock (update_row i f w) = clock w"
  "db_faults (update_row i f w) = db_faults w"
  "redis_faults (update_row i f w) = redis_faults w"
  "calls (update_row i f w) = calls w"
  by (simp_all add: update_row_def split: option.split)

lemma update_row_jobs:
  "jobs (update_row i f w) = (case jobs w i of None \<Rightarrow> jobs w | Some row \<Rightarrow> (jobs w)(i \<mapsto> f row))"
  by (simp add: update_row_def split: option.split)

lemma store_inv_iff:
  "store_inv w \<longleftrightarrow> (\<forall>i row. jobs w i = Some row \<longrightarrow> completed_at_inv row)"
  by (auto simp: store_inv_def ran_def)

lemma store_inv_update_row:
  assumes "store_inv w" and "\<And>row. completed_at_inv row \<Longrightarrow> completed_at_inv (f row)"
  shows "store_inv (update_row i f w)"
  using assms by (auto simp: store_inv_iff update_row_jobs split: option.splits if_splits)

lemma store_inv_db_exec: "store_inv (snd (db_exec w)) = store_inv w"
  by (simp add: store_inv_iff)

lemma store_inv_UpdateStatus:
  assumes "store_inv w"
  shows "store_inv (snd (UpdateStatus i status msg w))"
proof (cases "db_exec w")
  case (Pair f w1)
  then have w1: "store_inv w1" using assms store_inv_db_exec [of w] by simp
  show ?thesis
  proof (cases f)
    case True
    with Pair w1 show ?thesis by (simp add: UpdateStatus_def Let_def)
  next
    case False
    have "store_inv (update_row i
            (\<lambda>row. row\<lparr>j_Status := status, j_UpdatedAt := clock w,
                       j_CompletedAt := (if status = JobStatusCompleted \<or> status = JobStatusFailed
                                         then Some (clock w) else None),
                       j_ErrorMessage := msg\<rparr>) w1)"
    proof (rule store_inv_iff [THEN iffD2], intro allI impI)
      fix k row
      assume "jobs (update_row i
            (\<lambda>row. row\<lparr>j_Status := status, j_UpdatedAt := clock w,
                       j_CompletedAt := (if status = JobStatusCompleted \<or> status = JobStatusFailed
                                         then Some (clock w) else None),
                       j_ErrorMessage := msg\<rparr>) w1) k = Some row"
      then show "completed_at_inv row"
        using w1
        by (auto simp: update_row_jobs store_inv_iff completed_at_inv_def is_terminal_def
                 split: option.splits if_splits)
    qed
    with Pair False show ?thesis by (simp add: UpdateStatus_def Let_def)
  qed
qed

lemma store_inv_SetTranscription:
  "store_inv w \<Longrightarrow> store_inv (snd (SetTranscription i t w))"
  using store_inv_db_exec [of w]
  by (cases "db_exec w")
     (auto simp: SetTranscription_def completed_at_inv_def split: bool.splits intro!: store_inv_update_row)

lemma store_inv_SetSummary:
  "store_inv w \<Longrightarrow> store_inv (snd (SetSummary i t w))"
  using store_inv_db_exec [of w]
  by (cases "db_exec w")
     (auto simp: SetSummary_def completed_at_inv_def split: bool.splits intro!: store_inv_update_row)

lemma store_inv_SetNotionIDs:
  "store_inv w \<Longrightarrow> store_inv (snd (SetNotionIDs i p d w))"
  using store_inv_db_exec [of w]
  by (cases "db_exec w")
     (auto simp: SetNotionIDs_def completed_at_inv_def split: bool.splits intro!: store_inv_update_row)

lemma store_inv_Create:
  assumes "store_inv w" and "j_CompletedAt job = None"
  shows "store_inv (snd (Create job w))"
proof (cases "db_exec w")
  case (Pair f w1)
  then have w1: "store_inv w1" using assms store_inv_db_exec [of w] by simp
  then show ?thesis using Pair assms(2)
    by (cases f)
       (auto simp: Create_def Let_def store_inv_iff completed_at_inv_def is_terminal_def
                   JobStatus_defs split: if_splits)
qed

lemma store_inv_apply_store_op:
  "store_inv w \<Longrightarrow> creates_unfinished op \<Longrightarrow> store_inv (apply_store_op op w)"
  by (cases op)
     (simp_all add: store_inv_Create store_inv_UpdateStatus store_inv_SetTranscription
                    store_inv_SetSummary store_inv_SetNotionIDs)

text \<open>
  Claim C3, as amended. When every job handed to \<open>Create\<close> has no \<open>completed_at\<close>, any
  sequence of \<open>Create\<close>, \<open>UpdateStatus\<close>, \<open>SetTranscription\<close>, \<open>SetSummary\<close> and
  \<open>SetNotionIDs\<close>, whichever of them the database rejects, keeps the invariant: in every
  row, \<open>completed_at\<close> is set exactly when the status is \<open>completed\<close> or \<open>failed\<close>.
\<close>

theorem C3_completed_at_iff_terminal:
  assumes "store_inv w" and "\<forall>op \<in> set ops. creates_unfinished op"
  shows "store_inv (run_store_ops ops w)"
  using assms
proof (induction ops arbitrary: w)
  case Nil
  then show ?case by simp
next
  case (Cons op ops)
  then show ?case by (simp add: store_inv_apply_store_op)
qed

section \<open>Effects of the queue operations\<close>

lemma UpdateStatus_frame [simp]:
  "redis (snd (UpdateStatus i s m w)) = redis w"
  "calls (snd (UpdateStatus i s m w)) = calls w"
  "clock (snd (UpdateStatus i s m w)) = clock w"
  "users (snd (UpdateStatus i s m w)) = users w"
  "redis_faults (snd (UpdateStatus i s m w)) = redis_faults w"
  by (cases "db_exec w"; simp add: UpdateStatus_def Let_def split: bool.splits
      ; metis db_exec_frame snd_conv)+

lemma UpdateStatus_failed_jobs:
  "UpdateStatus i s m w = (Some e, w') \<Longrightarrow> jobs w' = jobs w"
  by (cases "db_exec w"; auto simp: UpdateStatus_def Let_def split: bool.splits
      ; metis db_exec_frame snd_conv)

lemma RPush_ok:
  "\<not> fst (redis_cmd w) \<Longrightarrow>
     RPush key v w =
       (None, (snd (redis_cmd w))\<lparr>redis := (redis w)(key := redis w key @ [v])\<rparr>)"
  by (cases "redis_cmd w"; auto simp: RPush_def split: bool.splits;
      metis redis_cmd_frame snd_conv)

lemma Push_ok:
  "\<not> fst (redis_cmd w) \<Longrightarrow>
     Push q job w =
       (None, (snd (redis_cmd w))
                \<lparr>redis := (redis w)(q := redis w q
                     @ [Encoded (json_QueueJob (job\<lparr>q_CreatedAt := clock w\<rparr>))])\<rparr>)"
  by (simp add: Push_def json_Marshal_def RPush_ok)

lemma Push_None_iff: "fst (Push q job w) = None \<longleftrightarrow> \<not> fst (redis_cmd w)"
  by (cases "redis_cmd w"; auto simp: Push_def json_Marshal_def RPush_def split: bool.splits)

text \<open>
  Claim C5. When the push into the queue succeeds and the following update of the job's
  status to \<open>queued\<close> fails, \<open>PushJob\<close> returns the wrapped error, the encoded job stays
  at the end of the queue named after its type, and the jobs table is unchanged.
\<close>

theorem C5_PushJob_not_atomic:
  assumes "Push (q_JobType job) job w = (None, w1)"
    and "UpdateStatus (q_JobID job) JobStatusQueued [] w1 = (Some e, w2)"
  shows "PushJob job w = (Some (Wrap ''failed to update job status'' e), w2)
       \<and> redis w2 (q_JobType job) =
           redis w (q_JobType job) @ [Encoded (json_QueueJob (job\<lparr>q_CreatedAt := clock w\<rparr>))]
       \<and> jobs w2 = jobs w"
proof -
  have ok: "\<not> fst (redis_cmd w)"
    using assms(1) Push_None_iff [of "q_JobType job" job w] by simp
  have w1: "w1 = (snd (redis_cmd w))
                \<lparr>redis := (redis w)(q_JobType job := redis w (q_JobType job)
                     @ [Encoded (json_QueueJob (job\<lparr>q_CreatedAt := clock w\<rparr>))])\<rparr>"
    using assms(1) Push_ok [OF ok, of "q_JobType job" job] by simp
  have r: "redis w2 = redis w1"
    using UpdateStatus_frame(1) [of "q_JobID job" JobStatusQueued "[]" w1] assms(2) by simp
  have j: "jobs w2 = jobs w1"
    using UpdateStatus_failed_jobs [OF assms(2)] .
  show ?thesis
    using assms r j by (simp add: PushJob_def w1)
qed

section \<open>Popping, ordering and the worker loop\<close>

lemma BLPop_empty:
  "redis w q = [] \<Longrightarrow> \<not> fst (redis_cmd w) \<Longrightarrow>
     BLPop t q w = (Inl redis_Nil, (snd (redis_cmd w))\<lparr>clock := clock w + t\<rparr>)"
  by (simp add: BLPop_def case_prod_beta split: bool.splits)

lemma BLPop_head:
  "redis w q = v # vs \<Longrightarrow> \<not> fst (redis_cmd w) \<Longrightarrow>
     BLPop t q w = (Inr [Undecodable q, v], (snd (redis_cmd w))\<lparr>redis := (redis w)(q := vs)\<rparr>)"
  by (simp add: BLPop_def case_prod_beta split: bool.splits)

lemma Pop_empty:
  "redis w q = [] \<Longrightarrow> \<not> fst (redis_cmd w) \<Longrightarrow>
     Pop q w = (Inr None, (snd (redis_cmd w))\<lparr>clock := clock w + second\<rparr>)"
  by (simp add: Pop_def BLPop_empty)

lemma Pop_head:
  "redis w q = Encoded job # vs \<Longrightarrow> \<not> fst (redis_cmd w) \<Longrightarrow>
     Pop q w = (Inr (Some job), (snd (redis_cmd w))\<lparr>redis := (redis w)(q := vs)\<rparr>)"
  by (simp add: Pop_def BLPop_head json_Unmarshal_def)

text \<open>
  Claim C9. Popping a queue that is empty, with Redis answering, waits for the timeout of
  one second and returns no job and no error, from \<open>Pop\<close> and from \<open>PopJob\<close>; neither
  the queues nor the jobs table change.
\<close>

theorem C9_pop_empty_is_not_an_error:
  assumes "redis w q = []" and "\<not> fst (redis_cmd w)"
  shows "fst (Pop q w) = Inr None
       \<and> fst (PopJob q w) = (None, None)
       \<and> redis (snd (PopJob q w)) = redis w
       \<and> jobs (snd (PopJob q w)) = jobs w
       \<and> clock (snd (PopJob q w)) = clock w + second"
  using assms by (simp add: PopJob_def Pop_empty)

lemma redis_cmd_no_faults: "redis_faults w = [] \<Longrightarrow> redis_cmd w = (False, w)"
  by (simp add: redis_cmd_def)

lemma Push_no_faults:
  "redis_faults w = [] \<Longrightarrow>
     snd (Push q job w) =
       w\<lparr>redis := (redis w)(q := redis w q
            @ [Encoded (json_QueueJob (job\<lparr>q_CreatedAt := clock w\<rparr>))])\<rparr>"
  using Push_ok [of w q job] by (simp add: redis_cmd_no_faults)

lemma push_all_no_faults:
  "redis_faults w = [] \<Longrightarrow>
     redis_faults (push_all q js w) = []
   \<and> redis (push_all q js w) q =
       redis w q @ map (\<lambda>job. Encoded (json_QueueJob (job\<lparr>q_CreatedAt := clock w\<rparr>))) js"
proof (induction js arbitrary: w)
  case Nil
  then show ?case by simp
next
  case (Cons job js)
  let ?w1 = "snd (Push q job w)"
  have w1: "?w1 = w\<lparr>redis := (redis w)(q := redis w q
            @ [Encoded (json_QueueJob (job\<lparr>q_CreatedAt := clock w\<rparr>))])\<rparr>"
    using Cons.prems by (rule Push_no_faults)
  have f: "redis_faults ?w1 = []" and c: "clock ?w1 = clock w"
    and r: "redis ?w1 q = redis w q @ [Encoded (json_QueueJob (job\<lparr>q_CreatedAt := clock w\<rparr>))]"
    using Cons.prems by (simp_all add: w1)
  from Cons.IH [OF f] show ?case by (simp add: c r)
qed

lemma pop_n_encoded:
  "redis_faults w = [] \<Longrightarrow> redis w q = map Encoded xs @ rest \<Longrightarrow>
     fst (pop_n q (length xs) w) = map (\<lambda>job. Inr (Some job)) xs"
proof (induction xs arbitrary: w)
  case Nil
  then show ?case by simp
next
  case (Cons x xs)
  let ?w1 = "w\<lparr>redis := (redis w)(q := map Encoded xs @ rest)\<rparr>"
  have pop: "Pop q w = (Inr (Some x), ?w1)"
    using Pop_head [of w q x "map Encoded xs @ rest"] Cons.prems
    by (simp add: redis_cmd_no_faults)
  have "fst (pop_n q (length xs) ?w1) = map (\<lambda>job. Inr (Some job)) xs"
    using Cons.prems by (intro Cons.IH) simp_all
  then show ?case by (simp add: pop case_prod_beta)
qed

text \<open>
  Claim C8. With Redis answering, pushing any list of jobs to one queue that was empty
  and popping as many times returns the jobs in the order of the pushes, each as it is
  decoded: stamped with the time of the push and with its payload re-typed by JSON.
\<close>

theorem C8_queue_fifo:
  assumes "redis_faults w = []" and "redis w q = []"
  shows "fst (pop_n q (length js) (push_all q js w)) =
           map (\<lambda>job. Inr (Some (json_QueueJob (job\<lparr>q_CreatedAt := clock w\<rparr>)))) js"
proof -
  let ?xs = "map (\<lambda>job. json_QueueJob (job\<lparr>q_CreatedAt := clock w\<rparr>)) js"
  have "fst (pop_n q (length ?xs) (push_all q js w)) = map (\<lambda>job. Inr (Some job)) ?xs"
    using assms by (intro pop_n_encoded [where rest = "[]"])
                   (simp_all add: push_all_no_faults comp_def)
  then show ?thesis by (simp add: comp_def)
qed

lemma Worker_Start_stopped_by_context:
  "fst (Worker_Start handlers sigs w) = StoppedByContext \<Longrightarrow> CtxDone \<in> set sigs"
proof (induction sigs arbitrary: w)
  case Nil
  then show ?case by simp
next
  case (Cons s sigs)
  then show ?case
    by (cases s) (auto simp: case_prod_beta split: option.splits)
qed

lemma Worker_Start_stopped_by_shutdown:
  "fst (Worker_Start handlers sigs w) = StoppedByShutdown \<Longrightarrow> ShutdownClosed \<in> set sigs"
proof (induction sigs arbitrary: w)
  case Nil
  then show ?case by simp
next
  case (Cons s sigs)
  then show ?case
    by (cases s) (auto simp: case_prod_beta split: option.splits)
qed

text \<open>
  Claim C4. When the loop has popped a job and either no handler is registered for its
  type or the handler returns an error, the pass ends in the state that \<open>PopJob\<close>, or the
  handler, left: the loop writes nothing itself and does not put the job back. It then
  goes on with the next pass, and it returns as stopped only if the context was cancelled
  or the shutdown channel was closed at a later pass.
\<close>

theorem C4_worker_drops_and_continues:
  assumes "PopJob DefaultQueueName w = ((Some job, None), w1)"
    and "handlers (q_JobType job) = None
         \<or> (\<exists>handler e. handlers (q_JobType job) = Some handler \<and> fst (handler job w1) = Failed e)"
  shows "Worker_Start handlers (NoSignal # sigs) w =
           Worker_Start handlers sigs
             (case handlers (q_JobType job) of
                None \<Rightarrow> w1
              | Some handler \<Rightarrow> snd (handler job w1))
       \<and> (fst (Worker_Start handlers (NoSignal # sigs) w) = StoppedByContext
            \<longrightarrow> CtxDone \<in> set sigs)
       \<and> (fst (Worker_Start handlers (NoSignal # sigs) w) = StoppedByShutdown
            \<longrightarrow> ShutdownClosed \<in> set sigs)"
proof -
  have step: "Worker_Start handlers (NoSignal # sigs) w =
           Worker_Start handlers sigs
             (case handlers (q_JobType job) of
                None \<Rightarrow> w1
              | Some handler \<Rightarrow> snd (handler job w1))"
    using assms
    by (auto simp: worker_iteration_def processJob_def case_prod_beta split: option.splits)
  show ?thesis
    unfolding step
    using Worker_Start_stopped_by_context Worker_Start_stopped_by_shutdown by blast
qed

text \<open>
  Claim C6. When an item is popped and the update of the status to \<open>processing\<close> fails,
  \<open>PopJob\<close> does return the job together with the error. The specification says that
  work on it proceeds; the loop of \<open>Start\<close> tests the error first, sleeps and starts the
  next pass, so no handler sees the job, and the item is gone from the queue.
\<close>

theorem C6_worker_discards_job_after_status_failure:
  assumes "Pop DefaultQueueName w = (Inr (Some job), w1)"
    and "UpdateStatus (q_JobID job) JobStatusProcessing [] w1 = (Some e, w2)"
  shows "PopJob DefaultQueueName w = ((Some job, Some (Wrap ''failed to update job status'' e)), w2)
       \<and> worker_iteration handlers w = (None, sleep second w2)"
  using assms by (simp add: worker_iteration_def PopJob_def)

section \<open>Effects of the handlers\<close>

lemma SetTranscription_frame [simp]:
  "redis (snd (SetTranscription i t w)) = redis w"
  "calls (snd (SetTranscription i t w)) = calls w"
  "clock (snd (SetTranscription i t w)) = clock w"
  by (simp_all add: SetTranscription_def case_prod_beta split: bool.splits)

lemma SetSummary_frame [simp]:
  "redis (snd (SetSummary i t w)) = redis w"
  "calls (snd (SetSummary i t w)) = calls w"
  "clock (snd (SetSummary i t w)) = clock w"
  by (simp_all add: SetSummary_def case_prod_beta split: bool.splits)

lemma SetNotionIDs_frame [simp]:
  "redis (snd (SetNotionIDs i p d w)) = redis w"
  "calls (snd (SetNotionIDs i p d w)) = calls w"
  "clock (snd (SetNotionIDs i p d w)) = clock w"
  by (simp_all add: SetNotionIDs_def case_prod_beta split: bool.splits)

lemma GetByID_frame [simp]:
  "redis (snd (GetByID i w)) = redis w"
  "calls (snd (GetByID i w)) = calls w"
  "jobs (snd (GetByID i w)) = jobs w"
  by (simp_all add: GetByID_def case_prod_beta split: bool.splits option.splits)

lemma GetByTelegramID_frame [simp]:
  "redis (snd (GetByTelegramID i w)) = redis w"
  "jobs (snd (GetByTelegramID i w)) = jobs w"
  "clock (snd (GetByTelegramID i w)) = clock w"
  "calls (snd (GetByTelegramID i w)) = calls w @ [CallGetByTelegramID i]"
  by (simp_all add: GetByTelegramID_def Let_def case_prod_beta split: bool.splits option.splits)

lemma record_call_frame [simp]:
  "redis (record_call c w) = redis w"
  "jobs (record_call c w) = jobs w"
  "clock (record_call c w) = clock w"
  "calls (record_call c w) = calls w @ [c]"
  by (simp_all add: record_call_def)

lemma progress_update_frame [simp]:
  "redis (progress_update E i s w) = redis w"
  "jobs (progress_update E i s w) = jobs w"
  "clock (progress_update E i s w) = clock w"
  by (simp_all add: progress_update_def split: sum.splits prod.splits)

lemma progress_update_calls: "prefix (calls w) (calls (progress_update E i s w))"
  by (simp add: progress_update_def split: sum.splits prod.splits)

lemma Push_redis:
  "redis (snd (Push q job w)) =
     (if fst (redis_cmd w) then redis w
      else (redis w)(q := redis w q @ [Encoded (json_QueueJob (job\<lparr>q_CreatedAt := clock w\<rparr>))]))"
  by (simp add: Push_def json_Marshal_def RPush_def case_prod_beta split: bool.splits)

lemma Push_frame [simp]:
  "calls (snd (Push q job w)) = calls w"
  "jobs (snd (Push q job w)) = jobs w"
  "clock (snd (Push q job w)) = clock w"
  by (simp_all add: Push_def Let_def json_Marshal_def RPush_def case_prod_beta split: bool.splits)

lemma PushJob_redis:
  "redis (snd (PushJob job w)) =
     (if fst (redis_cmd w) then redis w
      else (redis w)(q_JobType job := redis w (q_JobType job)
             @ [Encoded (json_QueueJob (job\<lparr>q_CreatedAt := clock w\<rparr>))]))"
  by (simp add: PushJob_def Let_def case_prod_beta Push_redis split: option.splits)

lemma PushJob_frame [simp]:
  "calls (snd (PushJob job w)) = calls w"
  "clock (snd (PushJob job w)) = clock w"
  by (simp_all add: PushJob_def Let_def case_prod_beta split: option.splits)

lemma PushJob_prefix: "prefix (redis w q) (redis (snd (PushJob job w)) q)"
  by (simp add: PushJob_redis)

lemma PushJob_None_redis:
  "PushJob job w = (None, w') \<Longrightarrow>
     redis w' = (redis w)(q_JobType job := redis w (q_JobType job)
             @ [Encoded (json_QueueJob (job\<lparr>q_CreatedAt := clock w\<rparr>))])"
  using PushJob_redis [of job w] Push_None_iff [of "q_JobType job" job w]
  by (auto simp: PushJob_def Let_def case_prod_beta split: option.splits)

lemma UpdateStatus_ok_jobs:
  "UpdateStatus i s m w = (None, w') \<Longrightarrow>
     jobs w' =
       (case jobs w i of
          None \<Rightarrow> jobs w
        | Some row \<Rightarrow>
            (jobs w)(i \<mapsto> row\<lparr>j_Status := s, j_UpdatedAt := clock w,
               j_CompletedAt := (if s = JobStatusCompleted \<or> s = JobStatusFailed
                                 then Some (clock w) else None),
               j_ErrorMessage := m\<rparr>))"
  by (auto simp: UpdateStatus_def Let_def case_prod_beta update_row_jobs
           split: bool.splits option.splits)

text \<open>
  Claim C7. For a note-sync job with a transcription and a summary in its payload, whose
  user is found and has an empty Notion token or an empty Notion database id, and whose
  status update the store accepts, the handler returns nil, the job's status is
  \<open>completed\<close>, its Notion identifiers are what they were, and the only call made is the
  look-up of the user: \<open>CreatePage\<close> is not called.
\<close>

theorem C7_no_credentials_completes:
  assumes "q_Payload job = PMap payload"
    and "map_of payload ''transcription'' = Some (PString transcription)"
    and "map_of payload ''summary'' = Some (PString summary)"
    and "GetByTelegramID (q_UserID job) w = (Inr user, w1)"
    and "u_NotionToken user = [] \<or> u_NotionDatabaseID user = []"
    and "UpdateStatus (q_JobID job) JobStatusCompleted [] w1 = (None, w2)"
    and "jobs w (q_JobID job) = Some row"
  shows "ProcessNotionIntegration E job w = (Done, w2)
       \<and> map_option j_Status (jobs w2 (q_JobID job)) = Some JobStatusCompleted
       \<and> map_option j_NotionPageID (jobs w2 (q_JobID job)) = Some (j_NotionPageID row)
       \<and> map_option j_NotionDatabaseID (jobs w2 (q_JobID job)) = Some (j_NotionDatabaseID row)
       \<and> calls w2 = calls w @ [CallGetByTelegramID (q_UserID job)]"
proof -
  have j1: "jobs w1 = jobs w" and c1: "calls w1 = calls w @ [CallGetByTelegramID (q_UserID job)]"
    using GetByTelegramID_frame [of "q_UserID job" w] assms(4) by simp_all
  have c2: "calls w2 = calls w1"
    using UpdateStatus_frame(2) [of "q_JobID job" JobStatusCompleted "[]" w1] assms(6) by simp
  have run: "ProcessNotionIntegration E job w = (Done, w2)"
    using assms(1-6) by (auto simp: ProcessNotionIntegration_def)
  show ?thesis
    using run UpdateStatus_ok_jobs [OF assms(6)] assms(7) by (simp add: j1 c1 c2)
qed

text \<open>
  Claim C1. The specification expects the job enqueued by \<open>EnqueueTranscriptionJob\<close>,
  once popped, to be transcribed by the transcription handler. The enqueue operation
  stores the audio path as a bare string, and the handler accepts only a map with the key
  \<open>audio_path\<close>: on the enqueued job, as the queue returns it, the handler answers
  \<open>invalid payload type in job\<close> and changes nothing, whatever the collaborators do.
\<close>

theorem C1_enqueued_transcription_job_rejected:
  assumes "\<not> fst (redis_cmd w)"
  shows "\<exists>job. redis (snd (EnqueueTranscriptionJob jobID userID audioFilePath w))
                  JobTypeTranscription
                = redis w JobTypeTranscription @ [Encoded job]
              \<and> (\<forall>w'. ProcessTranscription E job w'
                        = (Failed (Err ''invalid payload type in job''), w'))"
  using assms
  by (simp add: EnqueueTranscriptionJob_def PushJob_redis transcription_QueueJob_def
                ProcessTranscription_def json_QueueJob_def)

section \<open>The worker loop and the named queues\<close>

lemma ProcessTranscription_appends:
  "prefix (redis w q) (redis (snd (ProcessTranscription E job w)) q)"
  by (simp add: ProcessTranscription_def Let_def case_prod_beta PushJob_redis
           split: payload.splits option.splits sum.splits)

lemma ProcessTranscriptionWithTimestamps_appends:
  "prefix (redis w q) (redis (snd (ProcessTranscriptionWithTimestamps E job w)) q)"
  by (simp add: ProcessTranscriptionWithTimestamps_def Let_def case_prod_beta
           split: payload.splits option.splits sum.splits)

lemma ProcessSummarization_appends:
  "prefix (redis w q) (redis (snd (ProcessSummarization E job w)) q)"
  by (simp add: ProcessSummarization_def Let_def case_prod_beta PushJob_redis
           split: payload.splits option.splits sum.splits)

lemma ProcessSummarizationWithBulletPoints_appends:
  "prefix (redis w q) (redis (snd (ProcessSummarizationWithBulletPoints E job w)) q)"
  by (simp add: ProcessSummarizationWithBulletPoints_def Let_def case_prod_beta
           split: payload.splits option.splits sum.splits)

lemma ProcessNotionIntegration_appends:
  "prefix (redis w q) (redis (snd (ProcessNotionIntegration E job w)) q)"
  by (simp add: ProcessNotionIntegration_def Let_def case_prod_beta
           split: payload.splits option.splits sum.splits)

lemma notification_handler_appends:
  "prefix (redis w q) (redis (snd (notification_handler job w)) q)"
  by (simp add: notification_handler_def SendJobCompletionNotification_def case_prod_beta
           split: sum.splits)

lemma RegisterHandlers_appends:
  "RegisterHandlers E jt = Some handler \<Longrightarrow>
     prefix (redis w q) (redis (snd (handler job w)) q)"
  by (auto simp: RegisterHandlers_def ProcessTranscription_appends
        ProcessTranscriptionWithTimestamps_appends ProcessSummarization_appends
        ProcessSummarizationWithBulletPoints_appends ProcessNotionIntegration_appends
        notification_handler_appends split: if_splits)

lemma processJob_appends:
  "prefix (redis w q) (redis (snd (processJob (RegisterHandlers E) job w)) q)"
  using RegisterHandlers_appends [of E "q_JobType job" _ w q job]
  by (auto simp: processJob_def case_prod_beta split: option.splits outcome.splits)

lemma BLPop_other:
  "q \<noteq> key \<Longrightarrow> redis (snd (BLPop t key w)) q = redis w q"
  by (simp add: BLPop_def case_prod_beta split: bool.splits list.splits)

lemma Pop_other:
  "q \<noteq> key \<Longrightarrow> redis (snd (Pop key w)) q = redis w q"
  by (simp add: Pop_def case_prod_beta BLPop_other split: sum.splits)

lemma PopJob_other:
  "q \<noteq> key \<Longrightarrow> redis (snd (PopJob key w)) q = redis w q"
  by (simp add: PopJob_def case_prod_beta Pop_other split: sum.splits option.splits)

lemma sleep_redis [simp]: "redis (sleep d w) = redis w"
  by (simp add: sleep_def)

lemma worker_iteration_appends:
  assumes "q \<noteq> DefaultQueueName"
  shows "prefix (redis w q) (redis (snd (worker_iteration (RegisterHandlers E) w)) q)"
proof -
  have pop: "redis (snd (PopJob DefaultQueueName w)) q = redis w q"
    using assms by (rule PopJob_other)
  show ?thesis
  proof (cases "PopJob DefaultQueueName w")
    case (Pair r w1)
    then have w1: "redis w1 q = redis w q" using pop by simp
    obtain job e where r: "r = (job, e)" by (cases r)
    show ?thesis
    proof (cases e)
      case (Some a)
      with Pair r w1 show ?thesis by (simp add: worker_iteration_def split: option.splits)
    next
      case None
      show ?thesis
      proof (cases job)
        case None
        with Pair r w1 \<open>e = None\<close> show ?thesis by (simp add: worker_iteration_def)
      next
        case (Some j)
        with Pair r w1 \<open>e = None\<close> processJob_appends [of w1 q E j]
        show ?thesis by (simp add: worker_iteration_def)
      qed
    qed
  qed
qed

lemma Worker_Start_appends:
  assumes "q \<noteq> DefaultQueueName"
  shows "prefix (redis w q) (redis (snd (Worker_Start (RegisterHandlers E) sigs w)) q)"
proof (induction sigs arbitrary: w)
  case Nil
  show ?case by simp
next
  case (Cons s sigs)
  show ?case
  proof (cases s)
    case NoSignal
    obtain m w1 where it: "worker_iteration (RegisterHandlers E) w = (m, w1)"
      by (cases "worker_iteration (RegisterHandlers E) w")
    have p1: "prefix (redis w q) (redis w1 q)"
      using worker_iteration_appends [OF assms, of w E] it by simp
    show ?thesis
    proof (cases m)
      case None
      have "prefix (redis w1 q) (redis (snd (Worker_Start (RegisterHandlers E) sigs w1)) q)"
        by (rule Cons.IH)
      with p1 NoSignal it None show ?thesis
        by (auto intro: prefix_order.trans)
    next
      case (Some a)
      with p1 NoSignal it show ?thesis by simp
    qed
  next
    case CtxDone
    then show ?thesis by simp
  next
    case ShutdownClosed
    then show ?thesis by simp
  qed
qed

text \<open>
  Claim C2, as amended. \<open>PushJob\<close> appends the job to the queue named after its type tag,
  and the loop of \<open>Start\<close>, run with the registered handlers for any number of passes,
  removes nothing from a queue other than \<open>default\<close>. So a job whose type tag is not
  \<open>default\<close>, which holds for the seven declared job types, stays in its queue where
  \<open>PushJob\<close> put it.
\<close>

theorem C2_worker_leaves_typed_queues:
  assumes "q_JobType job \<noteq> DefaultQueueName" and "\<not> fst (redis_cmd w)"
  shows "prefix
           (redis w (q_JobType job) @ [Encoded (json_QueueJob (job\<lparr>q_CreatedAt := clock w\<rparr>))])
           (redis (snd (Worker_Start (RegisterHandlers E) sigs (snd (PushJob job w))))
              (q_JobType job))"
  using Worker_Start_appends [OF assms(1), of "snd (PushJob job w)" E sigs] assms(2)
  by (simp add: PushJob_redis)

section \<open>User ids along the pipeline\<close>

lemma PushJob_fst_None: "fst (PushJob job w) = None \<Longrightarrow> \<not> fst (redis_cmd w)"
  using Push_None_iff [of "q_JobType job" job w]
  by (auto simp: PushJob_def Let_def case_prod_beta split: option.splits)

lemma ProcessTranscription_Done:
  assumes "ProcessTranscription E job w = (Done, w1)"
  shows "\<exists>t. redis w1 JobTypeSummarization =
               redis w JobTypeSummarization
                 @ [Encoded (json_QueueJob ((summarizationJob job t)\<lparr>q_CreatedAt := clock w\<rparr>))]"
  using assms
  by (auto simp: ProcessTranscription_def Let_def case_prod_beta PushJob_redis
                 summarizationJob_def
           dest!: PushJob_fst_None
           split: payload.splits option.splits sum.splits)

lemma ProcessSummarization_Done:
  assumes "ProcessSummarization E job w = (Done, w1)"
  shows "\<exists>t s. map_of (case q_Payload job of PMap m \<Rightarrow> m | _ \<Rightarrow> []) ''transcription''
                  = Some (PString t)
             \<and> redis w1 JobTypeNotion =
                 redis w JobTypeNotion
                   @ [Encoded (json_QueueJob (notionJob job t s (clock w)))]"
  using assms
  by (auto simp: ProcessSummarization_def Let_def case_prod_beta PushJob_redis
                 notionJob_def
           dest!: PushJob_fst_None
           split: payload.splits option.splits sum.splits)

lemma ProcessNotionIntegration_lookup:
  assumes "q_Payload job = PMap payload"
    and "map_of payload ''transcription'' = Some (PString t)"
    and "map_of payload ''summary'' = Some (PString s)"
  shows "prefix (calls w @ [CallGetByTelegramID (q_UserID job)])
           (calls (snd (ProcessNotionIntegration E job w)))"
  using assms
  by (simp add: ProcessNotionIntegration_def Let_def case_prod_beta
           split: sum.splits option.splits)

lemma float64_of_int64_0 [simp]: "float64_of_int64 0 = 0"
  by (simp add: float64_of_int64_def)

lemma map_of_map_prod_id:
  "map_of (map (map_prod id f) kvs) k = map_option f (map_of kvs k)"
  by (induction kvs) auto

lemma json_payload_not_int64: "json_payload p \<noteq> PInt64 n"
  by (cases p) simp_all

lemma summarizationJob_json_user_id:
  "q_Payload (summarizationJob (json_QueueJob incoming) t) =
     PMap [(''transcription'', PString t), (''user_id'', PInt64 0)]"
  by (cases "q_Payload incoming")
     (auto simp: summarizationJob_def json_QueueJob_def map_of_map_prod_id
                 json_payload_not_int64
           split: option.splits payload.splits)

lemma summarizationJob_fields [simp]:
  "q_JobType (summarizationJob job t) = JobTypeSummarization"
  "q_JobID (summarizationJob job t) = q_JobID job"
  "q_UserID (summarizationJob job t) = 0"
  by (simp_all add: summarizationJob_def Let_def)

lemma ProcessTranscription_pushes:
  "redis (snd (ProcessTranscription E job w)) = redis w
   \<or> (\<exists>t. redis (snd (ProcessTranscription E job w)) =
            (redis w)(JobTypeSummarization := redis w JobTypeSummarization
               @ [Encoded (json_QueueJob ((summarizationJob job t)\<lparr>q_CreatedAt := clock w\<rparr>))]))"
  by (simp add: ProcessTranscription_def Let_def case_prod_beta PushJob_redis
           split: payload.splits option.splits sum.splits)
     blast

text \<open>
  Claim C10. On a job that came through the queue's JSON encoding, whatever the outcome,
  the transcription handler adds to the queues nothing but the summarization job it
  built, and adds it when it succeeds; that job has \<open>UserID\<close> 0 and the payload entry
  \<open>user_id\<close> 0. When the summarization handler succeeds on it, the note-sync job it
  pushes has \<open>UserID\<close> 0 as well, and the note-sync handler, run on that job in any
  state, looks the user up with id 0.
\<close>

theorem C10_summarization_job_user_zero:
  "\<exists>t sj.
       sj = json_QueueJob ((summarizationJob (json_QueueJob incoming) t)\<lparr>q_CreatedAt := clock w\<rparr>)
     \<and> (redis (snd (ProcessTranscription E (json_QueueJob incoming) w)) = redis w
        \<or> redis (snd (ProcessTranscription E (json_QueueJob incoming) w)) =
            (redis w)(JobTypeSummarization := redis w JobTypeSummarization @ [Encoded sj]))
     \<and> (fst (ProcessTranscription E (json_QueueJob incoming) w) = Done \<longrightarrow>
          redis (snd (ProcessTranscription E (json_QueueJob incoming) w)) JobTypeSummarization
            = redis w JobTypeSummarization @ [Encoded sj])
     \<and> q_UserID sj = 0
     \<and> q_Payload sj = PMap [(''transcription'', PString t), (''user_id'', PFloat64 0)]
     \<and> (\<forall>w2 w3. ProcessSummarization E sj w2 = (Done, w3) \<longrightarrow>
           (\<exists>s nj.
               nj = json_QueueJob (notionJob sj t s (clock w2))
             \<and> redis w3 JobTypeNotion = redis w2 JobTypeNotion @ [Encoded nj]
             \<and> q_UserID nj = 0
             \<and> (\<forall>w4. prefix (calls w4 @ [CallGetByTelegramID 0])
                        (calls (snd (ProcessNotionIntegration E nj w4))))))"
proof -
  let ?r = "ProcessTranscription E (json_QueueJob incoming) w"
  let ?sj = "\<lambda>t. json_QueueJob
                ((summarizationJob (json_QueueJob incoming) t)\<lparr>q_CreatedAt := clock w\<rparr>)"
  have uid: "q_UserID (?sj t) = 0" for t
    by (simp add: json_QueueJob_def)
  have pl: "q_Payload (?sj t) = PMap [(''transcription'', PString t), (''user_id'', PFloat64 0)]"
    for t
    using summarizationJob_json_user_id [of incoming t]
    by (simp add: json_QueueJob_def)
  have down: "\<exists>s nj.
                   nj = json_QueueJob (notionJob (?sj t) t s (clock w2))
                 \<and> redis w3 JobTypeNotion = redis w2 JobTypeNotion @ [Encoded nj]
                 \<and> q_UserID nj = 0
                 \<and> (\<forall>w4. prefix (calls w4 @ [CallGetByTelegramID 0])
                            (calls (snd (ProcessNotionIntegration E nj w4))))"
    if run: "ProcessSummarization E (?sj t) w2 = (Done, w3)" for t w2 w3
  proof -
    from ProcessSummarization_Done [OF run] obtain t' s where
      t': "map_of (case q_Payload (?sj t) of PMap m \<Rightarrow> m | _ \<Rightarrow> []) ''transcription''
             = Some (PString t')"
      and q: "redis w3 JobTypeNotion =
                redis w2 JobTypeNotion
                  @ [Encoded (json_QueueJob (notionJob (?sj t) t' s (clock w2)))]"
      by blast
    from t' have tt: "t' = t" by (simp add: pl)
    define nj where "nj = json_QueueJob (notionJob (?sj t) t s (clock w2))"
    have nuid: "q_UserID nj = 0"
      using uid [of t] by (simp add: nj_def json_QueueJob_def notionJob_def)
    have npl: "q_Payload nj = PMap [(''transcription'', PString t), (''summary'', PString s)]"
      by (simp add: nj_def json_QueueJob_def notionJob_def)
    have "prefix (calls w4 @ [CallGetByTelegramID 0])
            (calls (snd (ProcessNotionIntegration E nj w4)))" for w4
      using ProcessNotionIntegration_lookup [OF npl, of t s w4 E] by (simp add: nuid)
    with q tt nuid show ?thesis unfolding nj_def by blast
  qed
  have all: "\<exists>t. (redis (snd ?r) = redis w
                \<or> redis (snd ?r) =
                    (redis w)(JobTypeSummarization := redis w JobTypeSummarization
                       @ [Encoded (?sj t)]))
              \<and> (fst ?r = Done \<longrightarrow>
                   redis (snd ?r) JobTypeSummarization
                     = redis w JobTypeSummarization @ [Encoded (?sj t)])"
  proof (cases "fst ?r = Done")
    case True
    then have "?r = (Done, snd ?r)" by (simp add: prod_eq_iff)
    from ProcessTranscription_Done [OF this] obtain t where
      d: "redis (snd ?r) JobTypeSummarization
            = redis w JobTypeSummarization @ [Encoded (?sj t)]"
      by blast
    from ProcessTranscription_pushes [of E "json_QueueJob incoming" w]
    have "redis (snd ?r) =
            (redis w)(JobTypeSummarization := redis w JobTypeSummarization @ [Encoded (?sj t)])"
    proof
      assume same: "redis (snd ?r) = redis w"
      with d show ?thesis by simp
    next
      assume "\<exists>t. redis (snd ?r) =
            (redis w)(JobTypeSummarization := redis w JobTypeSummarization @ [Encoded (?sj t)])"
      then obtain t' where
        p: "redis (snd ?r) =
            (redis w)(JobTypeSummarization := redis w JobTypeSummarization @ [Encoded (?sj t')])"
        by blast
      from p d have "?sj t' = ?sj t" by simp
      with p show ?thesis by simp
    qed
    with d show ?thesis by blast
  next
    case False
    with ProcessTranscription_pushes [of E "json_QueueJob incoming" w] show ?thesis by blast
  qed
  then obtain t where
    t: "redis (snd ?r) = redis w
          \<or> redis (snd ?r) =
              (redis w)(JobTypeSummarization := redis w JobTypeSummarization @ [Encoded (?sj t)])"
       "fst ?r = Done \<longrightarrow>
          redis (snd ?r) JobTypeSummarization = redis w JobTypeSummarization @ [Encoded (?sj t)]"
    by blast
  show ?thesis
    using t uid [of t] pl [of t] down [of t] by blast
qed

section \<open>The scenario, evaluated\<close>

lemmas store_defs =
  Create_def GetByID_def UpdateStatus_def SetTranscription_def SetSummary_def
  SetNotionIDs_def update_row_def db_exec_def GetByTelegramID_def

lemmas queue_defs =
  Push_def Pop_def RPush_def BLPop_def redis_cmd_def json_Marshal_def json_Unmarshal_def
  json_QueueJob_def PushJob_def PopJob_def EnqueueTranscriptionJob_def
  transcription_QueueJob_def DefaultQueueName_def redis_Nil_def redis_error_def

lemmas worker_defs =
  worker_iteration_def processJob_def sleep_def RegisterHandlers_def

lemmas handler_defs =
  ProcessTranscription_def ProcessSummarization_def ProcessNotionIntegration_def
  summarizationJob_def notionJob_def record_call_def progress_update_def Base_def

lemmas scenario_defs =
  world0_def world1_def user42_def job_a_ogg_def env0_def job_finished_def
  store_ops_example_def tjob_def tjob_map_def njob_def default_job_def world_default_def

text \<open>
  The invariant on the scenario: the job is created, queued, transcribed, summarized,
  synchronised and completed, starting from the empty store.
\<close>

theorem C3_completed_at_iff_terminal_witness:
  "store_inv world0
   \<and> list_all creates_unfinished store_ops_example
   \<and> store_inv (run_store_ops store_ops_example world0)"
proof -
  have h1: "store_inv world0" by (simp add: store_inv_def world0_def)
  have l: "list_all creates_unfinished store_ops_example"
    by (simp add: store_ops_example_def job_a_ogg_def)
  then have h2: "\<forall>op \<in> set store_ops_example. creates_unfinished op"
    by (simp only: list_all_iff)
  from C3_completed_at_iff_terminal [OF h1 h2] h1 l show ?thesis by (simp only: simp_thms)
qed

text \<open>
  Claim C3 as stated fails: \<open>Create\<close> inserts the \<open>completed_at\<close> of the entity it is
  given and forces the status \<open>pending\<close>, so a job handed over with \<open>completed_at\<close> set
  is stored with a completion time and a status that is not terminal.
\<close>

theorem C3_create_keeps_completed_at:
  "store_inv world0 \<and> \<not> store_inv (run_store_ops [OpCreate job_finished] world0)"
proof -
  have h1: "store_inv world0" by (simp add: store_inv_def world0_def)
  have "jobs (run_store_ops [OpCreate job_finished] world0) 1
          = Some (job_finished\<lparr>j_ID := 1, j_Status := JobStatusPending, j_Type := [],
                    j_FileName := [], j_Duration := 0\<rparr>)"
    by (simp add: store_defs scenario_defs Let_def)
  moreover have "\<not> completed_at_inv (job_finished\<lparr>j_ID := 1, j_Status := JobStatusPending,
                    j_Type := [], j_FileName := [], j_Duration := 0\<rparr>)"
    by (simp add: completed_at_inv_def is_terminal_def job_finished_def JobStatus_defs)
  ultimately have "\<not> store_inv (run_store_ops [OpCreate job_finished] world0)"
    unfolding store_inv_iff by blast
  with h1 show ?thesis by simp
qed

text \<open>Popping the default queue of the initial state.\<close>

theorem C9_pop_empty_is_not_an_error_witness:
  "redis world0 DefaultQueueName = []
   \<and> \<not> fst (redis_cmd world0)
   \<and> fst (Pop DefaultQueueName world0) = Inr None
   \<and> fst (PopJob DefaultQueueName world0) = (None, None)
   \<and> clock (snd (PopJob DefaultQueueName world0)) = 1000001000"
proof -
  have h1: "redis world0 DefaultQueueName = []" by (simp add: world0_def)
  have h2: "\<not> fst (redis_cmd world0)" by (simp add: redis_cmd_def world0_def)
  have c: "clock world0 + second = 1000001000" by (simp add: world0_def second_def)
  from C9_pop_empty_is_not_an_error [OF h1 h2] h1 h2 show ?thesis by (simp only: c simp_thms)
qed

text \<open>Two jobs pushed to the transcription queue come back in the same order.\<close>

theorem C8_queue_fifo_witness:
  "redis_faults world0 = []
   \<and> redis world0 JobTypeTranscription = []
   \<and> fst (pop_n JobTypeTranscription 2 (push_all JobTypeTranscription [tjob_map, tjob] world0))
       = [Inr (Some (json_QueueJob tjob_map)), Inr (Some tjob)]"
proof -
  let ?w = "push_all JobTypeTranscription [tjob_map, tjob] world0"
  have h1: "redis_faults world0 = []" by (simp add: world0_def)
  have h2: "redis world0 JobTypeTranscription = []" by (simp add: world0_def)
  have e1: "json_QueueJob (tjob_map\<lparr>q_CreatedAt := clock world0\<rparr>) = json_QueueJob tjob_map"
    by (simp add: tjob_map_def world0_def)
  have e2: "json_QueueJob (tjob\<lparr>q_CreatedAt := clock world0\<rparr>) = tjob"
    by (simp add: tjob_def world0_def json_QueueJob_def transcription_QueueJob_def)
  have two: "length [tjob_map, tjob] = 2" by simp
  have "fst (pop_n JobTypeTranscription 2 ?w)
          = fst (pop_n JobTypeTranscription (length [tjob_map, tjob]) ?w)"
    by (simp only: two)
  also have "\<dots> = map (\<lambda>job. Inr (Some (json_QueueJob (job\<lparr>q_CreatedAt := clock world0\<rparr>))))
                     [tjob_map, tjob]"
    by (rule C8_queue_fifo [OF h1 h2])
  also have "\<dots> = [Inr (Some (json_QueueJob tjob_map)), Inr (Some tjob)]"
    by (simp add: e1 e2)
  finally show ?thesis using h1 h2 by simp
qed

text \<open>
  The transcription job of the scenario, pushed while the database rejects the next
  statement: the job is in the queue, the row is still \<open>pending\<close>.
\<close>

theorem C5_PushJob_not_atomic_witness:
  "fst (Push (q_JobType tjob) tjob (world1\<lparr>db_faults := [True]\<rparr>)) = None
   \<and> fst (UpdateStatus (q_JobID tjob) JobStatusQueued []
             (snd (Push (q_JobType tjob) tjob (world1\<lparr>db_faults := [True]\<rparr>))))
       = Some (Wrap ''failed to update job status'' db_error)
   \<and> fst (PushJob tjob (world1\<lparr>db_faults := [True]\<rparr>))
       = Some (Wrap ''failed to update job status''
                 (Wrap ''failed to update job status'' db_error))
   \<and> redis (snd (PushJob tjob (world1\<lparr>db_faults := [True]\<rparr>))) JobTypeTranscription
       = [Encoded tjob]
   \<and> map_option j_Status (jobs (snd (PushJob tjob (world1\<lparr>db_faults := [True]\<rparr>))) 1)
       = Some JobStatusPending"
proof -
  let ?w = "world1\<lparr>db_faults := [True]\<rparr>"
  let ?w1 = "snd (Push (q_JobType tjob) tjob ?w)"
  let ?w2 = "snd (UpdateStatus (q_JobID tjob) JobStatusQueued [] ?w1)"
  have f1: "fst (Push (q_JobType tjob) tjob ?w) = None"
    by (simp add: queue_defs store_defs scenario_defs Let_def)
  have f2: "fst (UpdateStatus (q_JobID tjob) JobStatusQueued [] ?w1)
              = Some (Wrap ''failed to update job status'' db_error)"
    by (simp add: queue_defs store_defs scenario_defs Let_def)
  have h1: "Push (q_JobType tjob) tjob ?w = (None, ?w1)"
    using f1 by (simp add: prod_eq_iff)
  have h2: "UpdateStatus (q_JobID tjob) JobStatusQueued [] ?w1
              = (Some (Wrap ''failed to update job status'' db_error), ?w2)"
    using f2 by (simp add: prod_eq_iff)
  have r: "redis ?w JobTypeTranscription = []" "q_JobType tjob = JobTypeTranscription"
    "json_QueueJob (tjob\<lparr>q_CreatedAt := clock ?w\<rparr>) = tjob"
    "jobs ?w 1 = Some (job_a_ogg\<lparr>j_ID := 1, j_Status := JobStatusPending, j_Type := [],
                    j_FileName := [], j_Duration := 0\<rparr>)"
    by (simp_all add: queue_defs store_defs scenario_defs Let_def)
  note c = C5_PushJob_not_atomic [OF h1 h2]
  have p: "PushJob tjob ?w = (Some (Wrap ''failed to update job status''
                 (Wrap ''failed to update job status'' db_error)), ?w2)"
    using c by blast
  have q: "redis ?w2 JobTypeTranscription = [Encoded tjob]"
    using c r by simp
  have j: "jobs ?w2 = jobs ?w"
    using c by blast
  show ?thesis
    unfolding p using f1 f2 q j r(4) by (simp add: job_a_ogg_def)
qed

text \<open>The scenario: job 1 of user 42 with the path \<open>a.ogg\<close>.\<close>

theorem C1_enqueued_transcription_job_rejected_witness:
  "\<not> fst (redis_cmd world1)
   \<and> (\<exists>job. redis (snd (EnqueueTranscriptionJob 1 42 ''a.ogg'' world1)) JobTypeTranscription
                = redis world1 JobTypeTranscription @ [Encoded job]
            \<and> (\<forall>w'. ProcessTranscription env0 job w'
                      = (Failed (Err ''invalid payload type in job''), w')))"
proof -
  have h: "\<not> fst (redis_cmd world1)"
    by (simp add: redis_cmd_def store_defs scenario_defs Let_def)
  from C1_enqueued_transcription_job_rejected [OF h, of 1 42 "''a.ogg''" env0] h show ?thesis by simp
qed

text \<open>The transcription job of the scenario is still first in its queue after three passes.\<close>

theorem C2_worker_leaves_typed_queues_witness:
  "q_JobType tjob \<noteq> DefaultQueueName
   \<and> \<not> fst (redis_cmd world1)
   \<and> prefix [Encoded tjob]
        (redis (snd (Worker_Start (RegisterHandlers env0) [NoSignal, NoSignal, NoSignal]
                       (snd (PushJob tjob world1))))
           JobTypeTranscription)"
proof -
  have h1: "q_JobType tjob \<noteq> DefaultQueueName"
    by (simp add: tjob_def queue_defs JobType_defs)
  have h2: "\<not> fst (redis_cmd world1)"
    by (simp add: redis_cmd_def store_defs scenario_defs Let_def)
  have t: "q_JobType tjob = JobTypeTranscription"
    by (simp add: queue_defs scenario_defs)
  have e: "redis world1 JobTypeTranscription
             @ [Encoded (json_QueueJob (tjob\<lparr>q_CreatedAt := clock world1\<rparr>))]
           = [Encoded tjob]"
    by (simp add: queue_defs store_defs scenario_defs Let_def)
  note c = C2_worker_leaves_typed_queues [OF h1 h2, of env0 "[NoSignal, NoSignal, NoSignal]"]
  show ?thesis
    using c h1 h2 unfolding e t by (simp only: simp_thms)
qed

text \<open>
  Claim C2 as stated fails for a job whose type tag is the string \<open>default\<close>: \<open>PushJob\<close>
  puts it on the default queue, and the next pass of the loop pops it.
\<close>

theorem C2_default_typed_job_is_popped:
  "redis (snd (PushJob default_job world1)) (q_JobType default_job) = [Encoded default_job]
   \<and> fst (PopJob DefaultQueueName (snd (PushJob default_job world1))) = (Some default_job, None)
   \<and> redis (snd (Worker_Start (RegisterHandlers env0) [NoSignal]
                    (snd (PushJob default_job world1))))
        (q_JobType default_job) = []"
  by (simp add: queue_defs store_defs worker_defs scenario_defs JobType_defs JobStatus_defs
                Let_def)

text \<open>
  The default queue holds the transcription job of the scenario. Without handlers the
  job is dropped; with the registered handlers the transcription handler rejects it; in
  both cases the loop is still running after the pass, and it stops at the next pass
  when a signal is pending there.
\<close>

theorem C4_worker_drops_and_continues_witness:
  "PopJob DefaultQueueName (world_default tjob)
     = ((Some tjob, None), snd (PopJob DefaultQueueName (world_default tjob)))
   \<and> Map.empty (q_JobType tjob) = (None :: JobHandler option)
   \<and> Worker_Start Map.empty [NoSignal] (world_default tjob)
       = (Running, snd (PopJob DefaultQueueName (world_default tjob)))
   \<and> RegisterHandlers env0 (q_JobType tjob) = Some (ProcessTranscription env0)
   \<and> fst (ProcessTranscription env0 tjob (snd (PopJob DefaultQueueName (world_default tjob))))
       = Failed (Err ''invalid payload type in job'')
   \<and> Worker_Start (RegisterHandlers env0) [NoSignal] (world_default tjob)
       = (Running, snd (PopJob DefaultQueueName (world_default tjob)))
   \<and> fst (Worker_Start (RegisterHandlers env0) [NoSignal, CtxDone] (world_default tjob))
       = StoppedByContext
   \<and> CtxDone \<in> set [CtxDone]
   \<and> fst (Worker_Start (RegisterHandlers env0) [NoSignal, ShutdownClosed] (world_default tjob))
       = StoppedByShutdown
   \<and> ShutdownClosed \<in> set [ShutdownClosed]"
proof -
  let ?w = "world_default tjob"
  let ?w1 = "snd (PopJob DefaultQueueName ?w)"
  have f: "fst (PopJob DefaultQueueName ?w) = (Some tjob, None)"
    by (simp add: queue_defs store_defs scenario_defs JobStatus_defs Let_def)
  have h1: "PopJob DefaultQueueName ?w = ((Some tjob, None), ?w1)"
    using f by (simp add: prod_eq_iff)
  have reg: "RegisterHandlers env0 (q_JobType tjob) = Some (ProcessTranscription env0)"
    by (simp add: RegisterHandlers_def tjob_def queue_defs JobType_defs)
  have run: "ProcessTranscription env0 tjob ?w1 = (Failed (Err ''invalid payload type in job''), ?w1)"
    by (simp add: ProcessTranscription_def tjob_def json_QueueJob_def transcription_QueueJob_def)
  have a: "Map.empty (q_JobType tjob) = (None :: JobHandler option)" by simp
  have h2a: "Map.empty (q_JobType tjob) = None
         \<or> (\<exists>handler e. Map.empty (q_JobType tjob) = Some handler
               \<and> fst (handler tjob ?w1) = Failed e)"
    by simp
  have h2b: "RegisterHandlers env0 (q_JobType tjob) = None
         \<or> (\<exists>handler e. RegisterHandlers env0 (q_JobType tjob) = Some handler
               \<and> fst (handler tjob ?w1) = Failed e)"
    using reg run by simp
  have ca: "Worker_Start Map.empty [NoSignal] ?w = (Running, ?w1)"
    using C4_worker_drops_and_continues [where handlers = Map.empty and job = tjob and w = ?w and ?w1.0 = ?w1
                and sigs = "[]", OF h1 h2a]
    by simp
  have cb: "Worker_Start (RegisterHandlers env0) [NoSignal] ?w = (Running, ?w1)"
    using C4_worker_drops_and_continues [where handlers = "RegisterHandlers env0" and job = tjob and w = ?w
                and ?w1.0 = ?w1 and sigs = "[]", OF h1 h2b] reg run
    by simp
  have cc: "fst (Worker_Start (RegisterHandlers env0) [NoSignal, CtxDone] ?w) = StoppedByContext"
    using C4_worker_drops_and_continues [where handlers = "RegisterHandlers env0" and job = tjob and w = ?w
                and ?w1.0 = ?w1 and sigs = "[CtxDone]", OF h1 h2b] reg run
    by simp
  have cd: "fst (Worker_Start (RegisterHandlers env0) [NoSignal, ShutdownClosed] ?w)
              = StoppedByShutdown"
    using C4_worker_drops_and_continues [where handlers = "RegisterHandlers env0" and job = tjob and w = ?w
                and ?w1.0 = ?w1 and sigs = "[ShutdownClosed]", OF h1 h2b] reg run
    by simp
  have m: "CtxDone \<in> set [CtxDone]" "ShutdownClosed \<in> set [ShutdownClosed]" by simp_all
  show ?thesis
    using h1 a ca reg run cb cc cd m by (simp only: fst_conv simp_thms)
qed

text \<open>
  The default queue holds one job and the database rejects the status update: the pass
  ends with the queue empty and without a single call to a collaborator.
\<close>

theorem C6_worker_discards_job_after_status_failure_witness:
  "fst (Pop DefaultQueueName ((world_default tjob)\<lparr>db_faults := [True]\<rparr>)) = Inr (Some tjob)
   \<and> fst (PopJob DefaultQueueName ((world_default tjob)\<lparr>db_faults := [True]\<rparr>))
       = (Some tjob,
          Some (Wrap ''failed to update job status''
                  (Wrap ''failed to update job status'' db_error)))
   \<and> fst (worker_iteration (RegisterHandlers env0)
             ((world_default tjob)\<lparr>db_faults := [True]\<rparr>)) = None
   \<and> redis (snd (worker_iteration (RegisterHandlers env0)
                    ((world_default tjob)\<lparr>db_faults := [True]\<rparr>))) DefaultQueueName = []
   \<and> calls (snd (worker_iteration (RegisterHandlers env0)
                    ((world_default tjob)\<lparr>db_faults := [True]\<rparr>))) = []"
proof -
  let ?w = "(world_default tjob)\<lparr>db_faults := [True]\<rparr>"
  let ?w1 = "snd (Pop DefaultQueueName ?w)"
  let ?w2 = "snd (UpdateStatus (q_JobID tjob) JobStatusProcessing [] ?w1)"
  have f1: "fst (Pop DefaultQueueName ?w) = Inr (Some tjob)"
    by (simp add: queue_defs store_defs scenario_defs Let_def)
  have f2: "fst (UpdateStatus (q_JobID tjob) JobStatusProcessing [] ?w1)
              = Some (Wrap ''failed to update job status'' db_error)"
    by (simp add: queue_defs store_defs scenario_defs Let_def)
  have h1: "Pop DefaultQueueName ?w = (Inr (Some tjob), ?w1)"
    using f1 by (simp add: prod_eq_iff)
  have h2: "UpdateStatus (q_JobID tjob) JobStatusProcessing [] ?w1
              = (Some (Wrap ''failed to update job status'' db_error), ?w2)"
    using f2 by (simp add: prod_eq_iff)
  note c = C6_worker_discards_job_after_status_failure [OF h1 h2, of "RegisterHandlers env0"]
  have p: "PopJob DefaultQueueName ?w
             = ((Some tjob, Some (Wrap ''failed to update job status''
                  (Wrap ''failed to update job status'' db_error))), ?w2)"
    using c by blast
  have it: "worker_iteration (RegisterHandlers env0) ?w = (None, sleep second ?w2)"
    using c by blast
  have r: "redis ?w2 DefaultQueueName = []" "calls ?w2 = []"
    by (simp_all add: queue_defs store_defs scenario_defs Let_def)
  show ?thesis
    unfolding p it using f1 r by (simp add: sleep_def)
qed

text \<open>The note-sync job of the scenario: user 42 has no credentials.\<close>

theorem C7_no_credentials_completes_witness:
  "q_Payload njob = PMap [(''transcription'', PString ''hello world''),
                          (''summary'', PString ''greeting'')]
   \<and> fst (GetByTelegramID (q_UserID njob) world1) = Inr user42
   \<and> (u_NotionToken user42 = [] \<or> u_NotionDatabaseID user42 = [])
   \<and> fst (ProcessNotionIntegration env0 njob world1) = Done
   \<and> map_option j_Status (jobs (snd (ProcessNotionIntegration env0 njob world1)) 1)
       = Some JobStatusCompleted
   \<and> map_option j_NotionPageID (jobs (snd (ProcessNotionIntegration env0 njob world1)) 1)
       = Some []
   \<and> map_option j_NotionDatabaseID (jobs (snd (ProcessNotionIntegration env0 njob world1)) 1)
       = Some []
   \<and> calls (snd (ProcessNotionIntegration env0 njob world1)) = [CallGetByTelegramID 42]"
proof -
  let ?payload = "[(''transcription'', PString ''hello world''), (''summary'', PString ''greeting'')]"
  let ?w1 = "snd (GetByTelegramID (q_UserID njob) world1)"
  let ?w2 = "snd (UpdateStatus (q_JobID njob) JobStatusCompleted [] ?w1)"
  let ?row = "job_a_ogg\<lparr>j_ID := 1, j_Status := JobStatusPending, j_Type := [],
                j_FileName := [], j_Duration := 0\<rparr>"
  have a1: "q_Payload njob = PMap ?payload" by (simp add: njob_def)
  have a2: "map_of ?payload ''transcription'' = Some (PString ''hello world'')" by simp
  have a3: "map_of ?payload ''summary'' = Some (PString ''greeting'')" by simp
  have f4: "fst (GetByTelegramID (q_UserID njob) world1) = Inr user42"
    by (simp add: store_defs scenario_defs Let_def)
  have a4: "GetByTelegramID (q_UserID njob) world1 = (Inr user42, ?w1)"
    using f4 by (simp add: prod_eq_iff)
  have a5: "u_NotionToken user42 = [] \<or> u_NotionDatabaseID user42 = []"
    by (simp add: user42_def)
  have f6: "fst (UpdateStatus (q_JobID njob) JobStatusCompleted [] ?w1) = None"
    by (simp add: store_defs scenario_defs Let_def)
  have a6: "UpdateStatus (q_JobID njob) JobStatusCompleted [] ?w1 = (None, ?w2)"
    using f6 by (simp add: prod_eq_iff)
  have a7: "jobs world1 (q_JobID njob) = Some ?row"
    by (simp add: store_defs scenario_defs Let_def)
  note c = C7_no_credentials_completes [OF a1 a2 a3 a4 a5 a6 a7, of env0]
  have run: "ProcessNotionIntegration env0 njob world1 = (Done, ?w2)" using c by blast
  have k: "q_JobID njob = 1" "q_UserID njob = 42" "calls world1 = []"
    by (simp_all add: store_defs scenario_defs Let_def)
  show ?thesis
    unfolding run using c a1 f4 a5 by (simp add: k job_a_ogg_def)
qed

text \<open>
  The scenario with a payload the handler accepts, carrying \<open>user_id\<close> 42: both jobs
  pushed downstream carry the user id 0.
\<close>

theorem C10_summarization_job_user_zero_witness:
  "fst (ProcessTranscription env0 (json_QueueJob tjob_map) world1) = Done
   \<and> (\<exists>t sj nj.
          redis (snd (ProcessTranscription env0 (json_QueueJob tjob_map) world1))
            JobTypeSummarization = [Encoded sj]
        \<and> q_UserID sj = 0
        \<and> q_Payload sj = PMap [(''transcription'', PString t), (''user_id'', PFloat64 0)]
        \<and> fst (ProcessSummarization env0 sj
                  (snd (ProcessTranscription env0 (json_QueueJob tjob_map) world1))) = Done
        \<and> redis (snd (ProcessSummarization env0 sj
                         (snd (ProcessTranscription env0 (json_QueueJob tjob_map) world1))))
            JobTypeNotion = [Encoded nj]
        \<and> q_UserID nj = 0
        \<and> prefix [CallGetByTelegramID 0]
             (calls (snd (ProcessNotionIntegration env0 nj world1))))"
proof -
  let ?w1 = "snd (ProcessTranscription env0 (json_QueueJob tjob_map) world1)"
  have f: "fst (ProcessTranscription env0 (json_QueueJob tjob_map) world1) = Done"
    by (simp add: handler_defs queue_defs store_defs scenario_defs JobType_defs JobStatus_defs
                  Let_def)
  have h: "ProcessTranscription env0 (json_QueueJob tjob_map) world1 = (Done, ?w1)"
    using f by (simp add: prod_eq_iff)
  from C10_summarization_job_user_zero [where incoming = tjob_map and w = world1 and E = env0] obtain t sj where
    sj: "sj = json_QueueJob
                ((summarizationJob (json_QueueJob tjob_map) t)\<lparr>q_CreatedAt := clock world1\<rparr>)"
    and q0: "fst (ProcessTranscription env0 (json_QueueJob tjob_map) world1) = Done \<longrightarrow>
            redis ?w1 JobTypeSummarization = redis world1 JobTypeSummarization @ [Encoded sj]"
    and uid: "q_UserID sj = 0"
    and pl: "q_Payload sj = PMap [(''transcription'', PString t), (''user_id'', PFloat64 0)]"
    and down: "\<forall>w2 w3. ProcessSummarization env0 sj w2 = (Done, w3) \<longrightarrow>
               (\<exists>s nj.
                   nj = json_QueueJob (notionJob sj t s (clock w2))
                 \<and> redis w3 JobTypeNotion = redis w2 JobTypeNotion @ [Encoded nj]
                 \<and> q_UserID nj = 0
                 \<and> (\<forall>w4. prefix (calls w4 @ [CallGetByTelegramID 0])
                            (calls (snd (ProcessNotionIntegration env0 nj w4)))))"
    by blast
  from q0 f have
    q: "redis ?w1 JobTypeSummarization = redis world1 JobTypeSummarization @ [Encoded sj]"
    by blast
  let ?w3 = "snd (ProcessSummarization env0 sj ?w1)"
  have e0: "redis world1 JobTypeSummarization = []" "calls world1 = []"
    by (simp_all add: store_defs scenario_defs Let_def)
  have e1: "redis ?w1 JobTypeNotion = []"
    by (simp add: handler_defs queue_defs store_defs scenario_defs JobType_defs JobStatus_defs
                  Let_def)
  have fs: "fst (ProcessSummarization env0 sj ?w1) = Done"
    unfolding sj
    by (simp add: handler_defs queue_defs store_defs scenario_defs JobType_defs JobStatus_defs
                  Let_def)
  then have hs: "ProcessSummarization env0 sj ?w1 = (Done, ?w3)"
    by (simp add: prod_eq_iff)
  from down hs obtain s nj where
    nq: "redis ?w3 JobTypeNotion = redis ?w1 JobTypeNotion @ [Encoded nj]"
    and nuid: "q_UserID nj = 0"
    and look: "\<forall>w4. prefix (calls w4 @ [CallGetByTelegramID 0])
                 (calls (snd (ProcessNotionIntegration env0 nj w4)))"
    by blast
  from look have "prefix (calls world1 @ [CallGetByTelegramID 0])
                    (calls (snd (ProcessNotionIntegration env0 nj world1)))"
    by blast
  then have l1: "prefix [CallGetByTelegramID 0]
                   (calls (snd (ProcessNotionIntegration env0 nj world1)))"
    by (simp only: e0 append_Nil)
  have q': "redis ?w1 JobTypeSummarization = [Encoded sj]"
    using q by (simp only: e0 append_Nil)
  have nq': "redis ?w3 JobTypeNotion = [Encoded nj]"
    using nq by (simp only: e1 append_Nil)
  from f q' uid pl fs nq' nuid l1 show ?thesis by blast
qed

section \<open>The transcription handler on a map payload\<close>

lemma db_exec_no_faults: "db_faults w = [] \<Longrightarrow> db_exec w = (False, w)"
  by (simp add: db_exec_def)

lemma progress_update_faults [simp]:
  "db_faults (progress_update E i s w) = db_faults w"
  "redis_faults (progress_update E i s w) = redis_faults w"
  by (simp_all add: progress_update_def record_call_def split: sum.splits prod.splits)

text \<open>
  On a payload of the shape it reads, and with the collaborators and both stores
  answering, the transcription handler does what the specification describes: the
  transcription is stored, the status is \<open>transcribed\<close>, a summarization job is pushed.
\<close>

lemma ProcessTranscription_map_payload:
  assumes "q_Payload job = PMap payload"
    and "map_of payload ''audio_path'' = Some (PString audioPath)"
    and "env_ProcessAudio E audioPath (Base audioPath) = Inr processed"
    and "env_Transcribe E processed = Inr transcription"
    and "db_faults w = []" and "redis_faults w = []"
    and "jobs w (q_JobID job) = Some row"
  shows "fst (ProcessTranscription E job w) = Done
       \<and> map_option j_Transcription (jobs (snd (ProcessTranscription E job w)) (q_JobID job))
           = Some transcription
       \<and> map_option j_Status (jobs (snd (ProcessTranscription E job w)) (q_JobID job))
           = Some JobStatusTranscribed
       \<and> redis (snd (ProcessTranscription E job w)) JobTypeSummarization
           = redis w JobTypeSummarization
               @ [Encoded (json_QueueJob
                    ((summarizationJob job transcription)\<lparr>q_CreatedAt := clock w\<rparr>))]"
proof -
  let ?w3 = "record_call (CallTranscribe processed)
               (progress_update E (q_JobID job) JobStatusProcessing
                  (record_call (CallProcessAudio audioPath (Base audioPath)) w))"
  let ?w4 = "progress_update E (q_JobID job) JobStatusTranscribed ?w3"
  have f4: "db_faults ?w4 = []" "redis_faults ?w4 = []"
    "jobs ?w4 = jobs w" "redis ?w4 = redis w" "clock ?w4 = clock w"
    using assms(5,6) by (simp_all add: record_call_def)
  define w5 where "w5 = update_row (q_JobID job)
      (\<lambda>row. row\<lparr>j_Transcription := transcription, j_UpdatedAt := clock w\<rparr>) ?w4"
  have s5: "SetTranscription (q_JobID job) transcription ?w4 = (None, w5)"
    using f4 by (simp add: SetTranscription_def db_exec_no_faults w5_def)
  have f5: "db_faults w5 = []" "redis_faults w5 = []" "redis w5 = redis w" "clock w5 = clock w"
    "jobs w5 = (jobs w)(q_JobID job \<mapsto> row\<lparr>j_Transcription := transcription,
                                              j_UpdatedAt := clock w\<rparr>)"
    using f4 assms(7) by (simp_all add: w5_def update_row_jobs)
  let ?sj = "summarizationJob job transcription"
  have jt: "q_JobType ?sj = JobTypeSummarization" "q_JobID ?sj = q_JobID job"
    by (simp_all add: summarizationJob_def Let_def)
  define w6 where "w6 = snd (PushJob ?sj w5)"
  have p6: "fst (PushJob ?sj w5) = None"
    using f5 by (simp add: PushJob_def Push_def RPush_def json_Marshal_def Let_def
                   redis_cmd_no_faults UpdateStatus_def db_exec_no_faults)
  have f6: "db_faults w6 = []" "clock w6 = clock w"
    "redis w6 JobTypeSummarization
       = redis w JobTypeSummarization
           @ [Encoded (json_QueueJob (?sj\<lparr>q_CreatedAt := clock w\<rparr>))]"
    "map_option j_Transcription (jobs w6 (q_JobID job)) = Some transcription"
    using f5 unfolding w6_def
    by (simp_all add: PushJob_def Push_def RPush_def json_Marshal_def Let_def jt
                   redis_cmd_no_faults UpdateStatus_def db_exec_no_faults update_row_jobs)
  have u7: "fst (UpdateStatus (q_JobID job) JobStatusTranscribed [] w6) = None"
    using f6 by (simp add: UpdateStatus_def Let_def db_exec_no_faults)
  have run: "ProcessTranscription E job w
               = (Done, snd (UpdateStatus (q_JobID job) JobStatusTranscribed [] w6))"
    using assms(1-4) s5 p6 u7
    by (simp add: ProcessTranscription_def Let_def w6_def case_prod_beta split: option.splits)
  have j7: "jobs (snd (UpdateStatus (q_JobID job) JobStatusTranscribed [] w6)) (q_JobID job)
      = map_option (\<lambda>r. r\<lparr>j_Status := JobStatusTranscribed, j_UpdatedAt := clock w6,
               j_CompletedAt := None, j_ErrorMessage := []\<rparr>) (jobs w6 (q_JobID job))"
    using f6(1)
    by (simp add: UpdateStatus_def Let_def db_exec_no_faults update_row_jobs JobStatus_defs
             split: option.splits)
  show ?thesis
    unfolding run using f6 j7 by (auto simp: option.map_comp comp_def)
qed

end
